theory Spec2Isabelle
  imports Main
begin

section \<open>Python values the model needs\<close>

text \<open>
  Exceptions are values: a function that can raise returns \<open>py_error + 'a\<close>, with
  \<open>Inl\<close> for the exception.
\<close>

datatype py_error =
    TypeError
  | KeyError
  | AttributeError
  | NotImplementedError
  | JSONDecodeError
  | RecursionError
  | RequestException

text \<open>
  \<open>str(n)\<close> for an integer, which is also what an f-string writes for it: the decimal
  digits, with a minus sign for a negative number.
\<close>

fun str_nat :: "nat \<Rightarrow> string" where
  "str_nat n =
     (if n < 10 then [char_of (48 + n)]
      else str_nat (n div 10) @ [char_of (48 + n mod 10)])"

definition str_int :: "int \<Rightarrow> string" where
  "str_int i = (if i < 0 then CHR ''-'' # str_nat (nat (- i)) else str_nat (nat i))"

text \<open>A list comprehension over a function that can raise stops at the first exception.\<close>

fun map_result :: "('a \<Rightarrow> py_error + 'b) \<Rightarrow> 'a list \<Rightarrow> py_error + 'b list" where
  "map_result f [] = Inr []"
| "map_result f (x # xs) =
     (case f x of
        Inl e \<Rightarrow> Inl e
      | Inr y \<Rightarrow> (case map_result f xs of Inl e \<Rightarrow> Inl e | Inr ys \<Rightarrow> Inr (y # ys)))"

section \<open>The json module, for strings, lists and dicts\<close>

text \<open>
  The messages are built from strings, lists and dicts with string keys, so this is the
  part of JSON that is modelled: \<open>json.dumps\<close> with its default arguments (separators
  \<open>", "\<close> and \<open>": "\<close>, \<open>ensure_ascii=True\<close>) and \<open>json.loads\<close> on the same three
  kinds of value. A dict is the list of its items in insertion order. A string is a list
  of characters with codes below 256; text that holds a number, \<open>true\<close>, \<open>false\<close>,
  \<open>null\<close> or a \<open>\u\<close> escape of a higher code is outside the model and is refused by
  \<open>loads\<close> with JSONDecodeError.
\<close>

datatype json = JStr string | JArr "json list" | JObj "(string \<times> json) list"

subsection \<open>Writing\<close>

definition hexdigit :: "nat \<Rightarrow> char" where
  "hexdigit n = (if n < 10 then char_of (48 + n) else char_of (87 + n))"

text \<open>
  The escapes of \<open>encode_basestring_ascii\<close>: the quote, the backslash, the five short
  escapes, and \<open>\u00xx\<close> with lower-case digits for any other character outside the
  range from the space to the tilde.
\<close>

definition escape_char :: "char \<Rightarrow> string" where
  "escape_char c =
     (if c = CHR 0x22 then [CHR 0x5C, CHR 0x22]
      else if c = CHR 0x5C then [CHR 0x5C, CHR 0x5C]
      else if c = CHR 0x0A then [CHR 0x5C, CHR ''n'']
      else if c = CHR 0x0D then [CHR 0x5C, CHR ''r'']
      else if c = CHR 0x09 then [CHR 0x5C, CHR ''t'']
      else if c = CHR 0x08 then [CHR 0x5C, CHR ''b'']
      else if c = CHR 0x0C then [CHR 0x5C, CHR ''f'']
      else if (of_char c :: nat) < 32 \<or> 126 < (of_char c :: nat) then
        [CHR 0x5C, CHR ''u'', CHR ''0'', CHR ''0'',
         hexdigit (of_char c div 16), hexdigit (of_char c mod 16)]
      else [c])"

definition encode_basestring_ascii :: "string \<Rightarrow> string" where
  "encode_basestring_ascii s = CHR 0x22 # concat (map escape_char s) @ [CHR 0x22]"

fun dumps :: "json \<Rightarrow> string"
and dumps_list :: "json list \<Rightarrow> string"
and dumps_items :: "(string \<times> json) list \<Rightarrow> string" where
  "dumps (JStr s) = encode_basestring_ascii s"
| "dumps (JArr vs) = ''['' @ dumps_list vs @ '']''"
| "dumps (JObj kvs) = ''{'' @ dumps_items kvs @ ''}''"
| "dumps_list [] = []"
| "dumps_list [v] = dumps v"
| "dumps_list (v # w # vs) = dumps v @ '', '' @ dumps_list (w # vs)"
| "dumps_items [] = []"
| "dumps_items [(k, v)] = encode_basestring_ascii k @ '': '' @ dumps v"
| "dumps_items ((k, v) # kv # kvs) =
     encode_basestring_ascii k @ '': '' @ dumps v @ '', '' @ dumps_items (kv # kvs)"

subsection \<open>Reading\<close>

definition is_ws :: "char \<Rightarrow> bool" where
  "is_ws c = (c = CHR '' '' \<or> c = CHR 0x09 \<or> c = CHR 0x0A \<or> c = CHR 0x0D)"

fun skip_ws :: "string \<Rightarrow> string" where
  "skip_ws [] = []"
| "skip_ws (c # cs) = (if is_ws c then skip_ws cs else c # cs)"

definition unhex :: "char \<Rightarrow> nat option" where
  "unhex c =
     (let n = (of_char c :: nat) in
      if 48 \<le> n \<and> n \<le> 57 then Some (n - 48)
      else if 97 \<le> n \<and> n \<le> 102 then Some (n - 87)
      else if 65 \<le> n \<and> n \<le> 70 then Some (n - 55)
      else None)"

definition decode_uXXXX :: "char \<Rightarrow> char \<Rightarrow> char \<Rightarrow> char \<Rightarrow> nat option" where
  "decode_uXXXX a b c d =
     (case (unhex a, unhex b, unhex c, unhex d) of
        (Some w, Some x, Some y, Some z) \<Rightarrow> Some (((w * 16 + x) * 16 + y) * 16 + z)
      | _ \<Rightarrow> None)"

text \<open>The decoder's table of one-letter escapes.\<close>

definition BACKSLASH :: "char \<Rightarrow> char option" where
  "BACKSLASH e =
     (if e = CHR 0x22 then Some (CHR 0x22)
      else if e = CHR 0x5C then Some (CHR 0x5C)
      else if e = CHR ''/'' then Some (CHR ''/'')
      else if e = CHR ''b'' then Some (CHR 0x08)
      else if e = CHR ''f'' then Some (CHR 0x0C)
      else if e = CHR ''n'' then Some (CHR 0x0A)
      else if e = CHR ''r'' then Some (CHR 0x0D)
      else if e = CHR ''t'' then Some (CHR 0x09)
      else None)"

definition consr :: "char \<Rightarrow> py_error + string \<times> string \<Rightarrow> py_error + string \<times> string" where
  "consr c r = (case r of Inl e \<Rightarrow> Inl e | Inr (t, rest) \<Rightarrow> Inr (c # t, rest))"

text \<open>
  \<open>scanstring\<close> reads a string from just after its opening quote and returns it with
  the text after its closing quote. A raw control character is refused (strict mode).
\<close>

fun scanstring :: "string \<Rightarrow> py_error + string \<times> string" where
  "scanstring [] = Inl JSONDecodeError"
| "scanstring (c # cs) =
     (if c = CHR 0x22 then Inr ([], cs)
      else if c = CHR 0x5C then
        (case cs of
           [] \<Rightarrow> Inl JSONDecodeError
         | e # r \<Rightarrow>
             if e = CHR ''u'' then
               (case r of
                  a # b # x # y # r' \<Rightarrow>
                    (case decode_uXXXX a b x y of
                       None \<Rightarrow> Inl JSONDecodeError
                     | Some n \<Rightarrow>
                         if n < 256 then consr (char_of n) (scanstring r')
                         else Inl JSONDecodeError)
                | _ \<Rightarrow> Inl JSONDecodeError)
             else
               (case BACKSLASH e of
                  None \<Rightarrow> Inl JSONDecodeError
                | Some ch \<Rightarrow> consr ch (scanstring r)))
      else if (of_char c :: nat) < 32 then Inl JSONDecodeError
      else consr c (scanstring cs))"

text \<open>
  The scanner. Its first argument bounds the nesting depth, as the interpreter's
  recursion limit does; \<open>loads\<close> starts it with the length of the text, which no text
  can exhaust. \<open>JSONArray\<close> starts at the first element of a non-empty list,
  \<open>JSONObject\<close> just after the quote that opens the first key.
\<close>

fun scan_once :: "nat \<Rightarrow> string \<Rightarrow> py_error + json \<times> string"
and JSONArray :: "nat \<Rightarrow> string \<Rightarrow> py_error + json list \<times> string"
and JSONObject :: "nat \<Rightarrow> string \<Rightarrow> py_error + (string \<times> json) list \<times> string" where
  "scan_once 0 s = Inl RecursionError"
| "scan_once (Suc n) [] = Inl JSONDecodeError"
| "scan_once (Suc n) (c # cs) =
     (if c = CHR 0x22 then
        (case scanstring cs of Inl e \<Rightarrow> Inl e | Inr (t, r) \<Rightarrow> Inr (JStr t, r))
      else if c = CHR ''{'' then
        (case skip_ws cs of
           [] \<Rightarrow> Inl JSONDecodeError
         | d # r \<Rightarrow>
             if d = CHR ''}'' then Inr (JObj [], r)
             else if d = CHR 0x22 then
               (case JSONObject n r of Inl e \<Rightarrow> Inl e | Inr (kvs, r') \<Rightarrow> Inr (JObj kvs, r'))
             else Inl JSONDecodeError)
      else if c = CHR ''['' then
        (case skip_ws cs of
           [] \<Rightarrow> Inl JSONDecodeError
         | d # r \<Rightarrow>
             if d = CHR '']'' then Inr (JArr [], r)
             else
               (case JSONArray n (d # r) of Inl e \<Rightarrow> Inl e | Inr (vs, r') \<Rightarrow> Inr (JArr vs, r')))
      else Inl JSONDecodeError)"
| "JSONArray 0 s = Inl RecursionError"
| "JSONArray (Suc n) s =
     (case scan_once n s of
        Inl e \<Rightarrow> Inl e
      | Inr (v, r) \<Rightarrow>
          (case skip_ws r of
             [] \<Rightarrow> Inl JSONDecodeError
           | d # r' \<Rightarrow>
               if d = CHR '']'' then Inr ([v], r')
               else if d = CHR '','' then
                 (case JSONArray n (skip_ws r') of
                    Inl e \<Rightarrow> Inl e
                  | Inr (vs, r'') \<Rightarrow> Inr (v # vs, r''))
               else Inl JSONDecodeError))"
| "JSONObject 0 s = Inl RecursionError"
| "JSONObject (Suc n) s =
     (case scanstring s of
        Inl e \<Rightarrow> Inl e
      | Inr (k, r) \<Rightarrow>
          (case skip_ws r of
             [] \<Rightarrow> Inl JSONDecodeError
           | d # r1 \<Rightarrow>
               if d \<noteq> CHR '':'' then Inl JSONDecodeError
               else
                 (case scan_once n (skip_ws r1) of
                    Inl e \<Rightarrow> Inl e
                  | Inr (v, r2) \<Rightarrow>
                      (case skip_ws r2 of
                         [] \<Rightarrow> Inl JSONDecodeError
                       | d2 # r3 \<Rightarrow>
                           if d2 = CHR ''}'' then Inr ([(k, v)], r3)
                           else if d2 = CHR '','' then
                             (case skip_ws r3 of
                                [] \<Rightarrow> Inl JSONDecodeError
                              | d3 # r4 \<Rightarrow>
                                  if d3 = CHR 0x22 then
                                    (case JSONObject n r4 of
                                       Inl e \<Rightarrow> Inl e
                                     | Inr (kvs, r5) \<Rightarrow> Inr ((k, v) # kvs, r5))
                                  else Inl JSONDecodeError)
                           else Inl JSONDecodeError))))"

text \<open>\<open>json.loads\<close>: leading white space, one value, and nothing but white space after it.\<close>

definition loads :: "string \<Rightarrow> py_error + json" where
  "loads s =
     (case scan_once (length s) (skip_ws s) of
        Inl e \<Rightarrow> Inl e
      | Inr (v, r) \<Rightarrow> if skip_ws r = [] then Inr v else Inl JSONDecodeError)"

text \<open>
  \<open>parsed[k]\<close> on what \<open>loads\<close> returned: a dict looks the key up (of two items with
  one key the later one stays in the dict) and raises KeyError without it; a list or a
  string indexed with a string raises TypeError.
\<close>

fun getitem :: "json \<Rightarrow> string \<Rightarrow> py_error + json" where
  "getitem (JObj kvs) k = (case map_of (rev kvs) k of None \<Rightarrow> Inl KeyError | Some v \<Rightarrow> Inr v)"
| "getitem (JArr vs) k = Inl TypeError"
| "getitem (JStr s) k = Inl TypeError"

section \<open>Labels (hmalib/common/actioner_models.py)\<close>

text \<open>
  \<^verbatim>\<open>
  @dataclass(unsafe_hash=True)
  class Label:
      key: str
      value: str
  \<close>
\<close>

record Label =
  key :: string
  "value" :: string

definition to_dynamodb_dict :: "Label \<Rightarrow> (string \<times> string) list" where
  "to_dynamodb_dict self = [(''K'', key self), (''V'', value self)]"

text \<open>
  \<open>Label.from_dynamodb_dict\<close> reads \<open>d["K"]\<close> and \<open>d["V"]\<close>; a missing key raises
  KeyError.
\<close>

definition from_dynamodb_dict :: "(string \<times> string) list \<Rightarrow> py_error + Label" where
  "from_dynamodb_dict d =
     (case map_of d ''K'' of
        None \<Rightarrow> Inl KeyError
      | Some k \<Rightarrow>
          (case map_of d ''V'' of
             None \<Rightarrow> Inl KeyError
           | Some v \<Rightarrow> Inr \<lparr>key = k, value = v\<rparr>))"

subsection \<open>Equality\<close>

text \<open>
  The values a label can be compared with: another label, or a value of a built-in type.
  None of the built-in types knows labels, so the comparison methods of a built-in value
  answer \<open>NotImplemented\<close> when their argument is a label.
\<close>

datatype py_other =
    PyNone
  | PyBool bool
  | PyInt int
  | PyStr string
  | PyList "py_other list"

datatype py_value = PyLabel Label | PyOther py_other

datatype py_cmp = Cmp bool | NotImplemented

text \<open>
  \<^verbatim>\<open>
  def __eq__(self, another_label: object) -> bool:
      if not isinstance(another_label, Label):
          return NotImplemented
      return self.key == another_label.key and self.value == another_label.value
  \<close>
\<close>

fun Label_eq :: "Label \<Rightarrow> py_value \<Rightarrow> py_cmp" where
  "Label_eq self (PyOther v) = NotImplemented"
| "Label_eq self (PyLabel another_label) =
     Cmp (key self = key another_label \<and> value self = value another_label)"

text \<open>
  The class defines no \<open>__ne__\<close>, so it has the inherited one: the negation of
  \<open>__eq__\<close>, and \<open>NotImplemented\<close> where \<open>__eq__\<close> says so.
\<close>

definition Label_ne :: "Label \<Rightarrow> py_value \<Rightarrow> py_cmp" where
  "Label_ne self v =
     (case Label_eq self v of Cmp b \<Rightarrow> Cmp (\<not> b) | NotImplemented \<Rightarrow> NotImplemented)"

text \<open>The comparison methods of the right operand, called with a label.\<close>

fun reflected_eq :: "py_value \<Rightarrow> Label \<Rightarrow> py_cmp" where
  "reflected_eq (PyLabel r) l = Label_eq r (PyLabel l)"
| "reflected_eq (PyOther v) l = NotImplemented"

fun reflected_ne :: "py_value \<Rightarrow> Label \<Rightarrow> py_cmp" where
  "reflected_ne (PyLabel r) l = Label_ne r (PyLabel l)"
| "reflected_ne (PyOther v) l = NotImplemented"

text \<open>
  The expressions \<open>l == v\<close> and \<open>l != v\<close>: the left operand's method first, then the
  right operand's, and when both answer \<open>NotImplemented\<close> the comparison of identities
  (a label and a value of a built-in type are never the same object).
\<close>

definition py_eq :: "Label \<Rightarrow> py_value \<Rightarrow> py_error + bool" where
  "py_eq l v =
     (case Label_eq l v of
        Cmp b \<Rightarrow> Inr b
      | NotImplemented \<Rightarrow>
          (case reflected_eq v l of Cmp b \<Rightarrow> Inr b | NotImplemented \<Rightarrow> Inr False))"

definition py_ne :: "Label \<Rightarrow> py_value \<Rightarrow> py_error + bool" where
  "py_ne l v =
     (case Label_ne l v of
        Cmp b \<Rightarrow> Inr b
      | NotImplemented \<Rightarrow>
          (case reflected_ne v l of Cmp b \<Rightarrow> Inr b | NotImplemented \<Rightarrow> Inr True))"

subsection \<open>The fixed-key kinds, as their class bodies declare them\<close>

text \<open>
  \<^verbatim>\<open>
  @dataclass(unsafe_hash=True)
  class ClassificationLabel(Label):
      key = field(default="Classification", init=False)
  \<close>
  and the same for five more kinds. Each body declares the key as a default kept out of
  the constructor, which leaves the value as the only argument. The functions below give
  the label that an instance of a kind is meant to be: its data, a key and a value. They
  stand for the labels in the catalogs of rules and actions and in the lists that the
  evaluator passes around. They are not the calls of the classes: what the class
  statements do, and what a call of a class returns, is the subject of the next
  subsection, and the decoding of messages goes through it.
\<close>

definition ClassificationLabel :: "string \<Rightarrow> Label" where
  "ClassificationLabel v = \<lparr>key = ''Classification'', value = v\<rparr>"

definition BankSourceClassificationLabel :: "string \<Rightarrow> Label" where
  "BankSourceClassificationLabel v = \<lparr>key = ''BankSourceClassification'', value = v\<rparr>"

definition BankIDClassificationLabel :: "string \<Rightarrow> Label" where
  "BankIDClassificationLabel v = \<lparr>key = ''BankIDClassification'', value = v\<rparr>"

definition BankedContentIDClassificationLabel :: "string \<Rightarrow> Label" where
  "BankedContentIDClassificationLabel v = \<lparr>key = ''BankedContentIDClassification'', value = v\<rparr>"

definition ActionLabel :: "string \<Rightarrow> Label" where
  "ActionLabel v = \<lparr>key = ''Action'', value = v\<rparr>"

definition ThreatExchangeReactionLabel :: "string \<Rightarrow> Label" where
  "ThreatExchangeReactionLabel v = \<lparr>key = ''ThreatExchangeReaction'', value = v\<rparr>"

subsection \<open>The class statements under the dataclass decorator\<close>

text \<open>
  A class body, as far as the decorator reads it: the names that carry a type annotation,
  in order, and the data values bound to names. A value is either the result of
  \<open>field(default=..., init=...)\<close> or a plain default. Methods are left out: the
  decorator passes over them.
\<close>

datatype field_default = MISSING | Default string

record Field =
  default_value :: field_default
  init :: bool

datatype class_attr = FieldAttr Field | PlainAttr string

record class_body =
  annotations :: "string list"
  attrs :: "(string \<times> class_attr) list"

definition is_Field :: "class_attr \<Rightarrow> bool" where
  "is_Field a = (case a of FieldAttr f \<Rightarrow> True | PlainAttr s \<Rightarrow> False)"

text \<open>The field an annotated name stands for: its \<open>field(...)\<close>, or its plain default.\<close>

definition get_field :: "class_body \<Rightarrow> string \<Rightarrow> Field" where
  "get_field body name =
     (case map_of (attrs body) name of
        None \<Rightarrow> \<lparr>default_value = MISSING, init = True\<rparr>
      | Some (FieldAttr f) \<Rightarrow> f
      | Some (PlainAttr s) \<Rightarrow> \<lparr>default_value = Default s, init = True\<rparr>)"

fun update_field :: "string \<Rightarrow> Field \<Rightarrow> (string \<times> Field) list \<Rightarrow> (string \<times> Field) list" where
  "update_field name f [] = [(name, f)]"
| "update_field name f ((n, g) # fs) =
     (if n = name then (n, f) # fs else (n, g) # update_field name f fs)"

text \<open>
  The decorator collects the fields of the base classes, then the annotated names of the
  class body (a name of a base class keeps its place and takes the new field), and then
  refuses a class body in which a name is bound to a \<open>field(...)\<close> without an
  annotation: \<open>TypeError: 'key' is a field but has no type annotation\<close>.
\<close>

definition dataclass :: "(string \<times> Field) list \<Rightarrow> class_body \<Rightarrow> py_error + (string \<times> Field) list" where
  "dataclass base_fields body =
     (let fs' = fold (\<lambda>name fs. update_field name (get_field body name) fs)
                     (annotations body) base_fields
      in if list_ex (\<lambda>(name, a). is_Field a \<and> name \<notin> set (annotations body)) (attrs body)
         then Inl TypeError
         else Inr fs')"

text \<open>
  The generated \<open>__init__\<close> takes the fields with \<open>init=True\<close> in order (no field
  here has both \<open>init=True\<close> and a default); a field with \<open>init=False\<close> keeps its
  default. A call with another number of arguments raises TypeError, and so does a call
  of a class whose definition failed.
\<close>

fun bind_fields :: "(string \<times> Field) list \<Rightarrow> string list \<Rightarrow> py_error + (string \<times> string) list" where
  "bind_fields [] [] = Inr []"
| "bind_fields [] (a # as) = Inl TypeError"
| "bind_fields ((n, f) # fs) as =
     (if init f then
        (case as of
           [] \<Rightarrow> Inl TypeError
         | a # as' \<Rightarrow>
             (case bind_fields fs as' of Inl e \<Rightarrow> Inl e | Inr r \<Rightarrow> Inr ((n, a) # r)))
      else
        (case default_value f of
           MISSING \<Rightarrow> Inl AttributeError
         | Default d \<Rightarrow>
             (case bind_fields fs as of Inl e \<Rightarrow> Inl e | Inr r \<Rightarrow> Inr ((n, d) # r))))"

definition new_label :: "py_error + (string \<times> Field) list \<Rightarrow> string list \<Rightarrow> py_error + Label" where
  "new_label cls args =
     (case cls of
        Inl e \<Rightarrow> Inl e
      | Inr fs \<Rightarrow>
          (case bind_fields fs args of
             Inl e \<Rightarrow> Inl e
           | Inr d \<Rightarrow>
               (case (map_of d ''key'', map_of d ''value'') of
                  (Some k, Some v) \<Rightarrow> Inr \<lparr>key = k, value = v\<rparr>
                | _ \<Rightarrow> Inl AttributeError)))"

definition Label_class :: "py_error + (string \<times> Field) list" where
  "Label_class = dataclass [] \<lparr>annotations = [''key'', ''value''], attrs = []\<rparr>"

text \<open>The body of a fixed-key kind, as written: no annotation, \<open>key\<close> bound to a field.\<close>

definition fixed_key_body :: "string \<Rightarrow> class_body" where
  "fixed_key_body k =
     \<lparr>annotations = [], attrs = [(''key'', FieldAttr \<lparr>default_value = Default k, init = False\<rparr>)]\<rparr>"

definition subclass_of_Label :: "class_body \<Rightarrow> py_error + (string \<times> Field) list" where
  "subclass_of_Label body =
     (case Label_class of Inl e \<Rightarrow> Inl e | Inr base_fields \<Rightarrow> dataclass base_fields body)"

definition ClassificationLabel_class :: "py_error + (string \<times> Field) list" where
  "ClassificationLabel_class = subclass_of_Label (fixed_key_body ''Classification'')"

definition BankSourceClassificationLabel_class :: "py_error + (string \<times> Field) list" where
  "BankSourceClassificationLabel_class = subclass_of_Label (fixed_key_body ''BankSourceClassification'')"

definition BankIDClassificationLabel_class :: "py_error + (string \<times> Field) list" where
  "BankIDClassificationLabel_class = subclass_of_Label (fixed_key_body ''BankIDClassification'')"

definition BankedContentIDClassificationLabel_class :: "py_error + (string \<times> Field) list" where
  "BankedContentIDClassificationLabel_class =
     subclass_of_Label (fixed_key_body ''BankedContentIDClassification'')"

definition ActionLabel_class :: "py_error + (string \<times> Field) list" where
  "ActionLabel_class = subclass_of_Label (fixed_key_body ''Action'')"

definition ThreatExchangeReactionLabel_class :: "py_error + (string \<times> Field) list" where
  "ThreatExchangeReactionLabel_class = subclass_of_Label (fixed_key_body ''ThreatExchangeReaction'')"

text \<open>
  For comparison, the body with the annotation that the decorator asks for
  (\<open>key: str = field(default=..., init=False)\<close>).
\<close>

definition annotated_key_body :: "string \<Rightarrow> class_body" where
  "annotated_key_body k =
     \<lparr>annotations = [''key''],
      attrs = [(''key'', FieldAttr \<lparr>default_value = Default k, init = False\<rparr>)]\<rparr>"

section \<open>Actions, rules and messages (hmalib/common/actioner_models.py)\<close>

record Action =
  action_label :: Label
  priority :: int
  superseded_by :: "Label list"

text \<open>
  An \<open>ActionRule\<close> is built in the sources from an action label and the two lists of
  labels (\<open>get_action_rules\<close>); the class it extends, \<open>config.HMAConfig\<close>, is not
  among the sources.
\<close>

record ActionRule =
  action_label :: Label
  must_have_labels :: "Label list"
  must_not_have_labels :: "Label list"

text \<open>
  \<open>MatchMessage\<close> and \<open>BankedSignal\<close> come from \<open>hmalib.models\<close>, which is not
  among the sources. The three fields of a match message are the ones the subclasses
  below pass to its constructor and read back. A banked signal is a type parameter
  \<open>'s\<close>, and its \<open>to_dict\<close> and \<open>from_dict\<close> are parameters of the functions that
  call them.
\<close>

record 's MatchMessage =
  content_key :: string
  content_hash :: string
  matching_banked_signals :: "'s list"

record 's ActionMessage = "'s MatchMessage" +
  action_label :: Label

record 's ReactionMessage = "'s MatchMessage" +
  reaction_label :: Label

text \<open>
  The fields are declared \<open>str\<close> and list. Python does not check that; the records of
  the model hold strings and lists only, so where decoded JSON of another kind would be
  stored in a field, the model answers TypeError. Iterating over a dict gives its keys,
  over a string its characters.
\<close>

fun as_str :: "json \<Rightarrow> py_error + string" where
  "as_str (JStr s) = Inr s"
| "as_str (JArr vs) = Inl TypeError"
| "as_str (JObj kvs) = Inl TypeError"

fun iter_json :: "json \<Rightarrow> json list" where
  "iter_json (JArr vs) = vs"
| "iter_json (JObj kvs) = map JStr (rev (remdups (rev (map fst kvs))))"
| "iter_json (JStr s) = map (\<lambda>c. JStr [c]) s"

text \<open>
  \<^verbatim>\<open>
  def to_aws_message(self) -> str:
      return json.dumps(
          {
              "ContentKey": self.content_key,
              "ContentHash": self.content_hash,
              "MatchingBankedSignals": [
                  x.to_dict() for x in self.matching_banked_signals
              ],
              "ActionLabelValue": self.action_label.value,
          }
      )
  \<close>
\<close>

definition ActionMessage_to_aws_message :: "('s \<Rightarrow> json) \<Rightarrow> 's ActionMessage \<Rightarrow> string" where
  "ActionMessage_to_aws_message to_dict self =
     dumps (JObj
       [(''ContentKey'', JStr (MatchMessage.content_key self)),
        (''ContentHash'', JStr (MatchMessage.content_hash self)),
        (''MatchingBankedSignals'', JArr (map to_dict (matching_banked_signals self))),
        (''ActionLabelValue'', JStr (value (ActionMessage.action_label self)))])"

text \<open>
  \<^verbatim>\<open>
  def from_aws_message(cls, message: str) -> "ActionMessage":
      parsed = json.loads(message)
      return cls(
          parsed["ContentKey"],
          parsed["ContentHash"],
          [BankedSignal.from_dict(d) for d in parsed["MatchingBankedSignals"]],
          ActionLabel(parsed["ActionLabelValue"]),
      )
  \<close>
  The arguments are evaluated from left to right, so the first failure is the one raised.
  The fourth argument calls the class \<open>ActionLabel\<close>: the call goes through the class
  statement, and fails if the statement failed. The class is an argument of the function
  below, so that the decoding can be followed with another class in its place.
\<close>

definition ActionMessage_from_aws_message_with ::
  "py_error + (string \<times> Field) list \<Rightarrow> (json \<Rightarrow> py_error + 's) \<Rightarrow> string
    \<Rightarrow> py_error + 's ActionMessage" where
  "ActionMessage_from_aws_message_with label_class from_dict message =
     (case loads message of Inl e \<Rightarrow> Inl e | Inr parsed \<Rightarrow>
     (case getitem parsed ''ContentKey'' of Inl e \<Rightarrow> Inl e | Inr ck \<Rightarrow>
     (case getitem parsed ''ContentHash'' of Inl e \<Rightarrow> Inl e | Inr ch \<Rightarrow>
     (case getitem parsed ''MatchingBankedSignals'' of Inl e \<Rightarrow> Inl e | Inr ds \<Rightarrow>
     (case map_result from_dict (iter_json ds) of Inl e \<Rightarrow> Inl e | Inr signals \<Rightarrow>
     (case getitem parsed ''ActionLabelValue'' of Inl e \<Rightarrow> Inl e | Inr lv \<Rightarrow>
     (case as_str lv of Inl e \<Rightarrow> Inl e | Inr lv' \<Rightarrow>
     (case new_label label_class [lv'] of Inl e \<Rightarrow> Inl e | Inr label \<Rightarrow>
     (case as_str ck of Inl e \<Rightarrow> Inl e | Inr ck' \<Rightarrow>
     (case as_str ch of Inl e \<Rightarrow> Inl e | Inr ch' \<Rightarrow>
        Inr \<lparr>MatchMessage.content_key = ck', content_hash = ch',
             matching_banked_signals = signals,
             action_label = label\<rparr>))))))))))"

text \<open>
  The method of the sources: the name \<open>ActionLabel\<close> in its body is the class that
  the class statement of the module defines.
\<close>

definition ActionMessage_from_aws_message ::
  "(json \<Rightarrow> py_error + 's) \<Rightarrow> string \<Rightarrow> py_error + 's ActionMessage" where
  "ActionMessage_from_aws_message from_dict message =
     ActionMessage_from_aws_message_with ActionLabel_class from_dict message"

definition ActionMessage_from_match_message_and_label ::
  "'s MatchMessage \<Rightarrow> Label \<Rightarrow> 's ActionMessage" where
  "ActionMessage_from_match_message_and_label match_message label =
     \<lparr>MatchMessage.content_key = MatchMessage.content_key match_message,
      content_hash = MatchMessage.content_hash match_message,
      matching_banked_signals = matching_banked_signals match_message,
      action_label = label\<rparr>"

definition ReactionMessage_to_aws_message :: "('s \<Rightarrow> json) \<Rightarrow> 's ReactionMessage \<Rightarrow> string" where
  "ReactionMessage_to_aws_message to_dict self =
     dumps (JObj
       [(''ContentKey'', JStr (MatchMessage.content_key self)),
        (''ContentHash'', JStr (MatchMessage.content_hash self)),
        (''MatchingBankedSignals'', JArr (map to_dict (matching_banked_signals self))),
        (''ReactionLabelValue'', JStr (value (reaction_label self)))])"

definition ReactionMessage_from_aws_message_with ::
  "py_error + (string \<times> Field) list \<Rightarrow> (json \<Rightarrow> py_error + 's) \<Rightarrow> string
    \<Rightarrow> py_error + 's ReactionMessage" where
  "ReactionMessage_from_aws_message_with label_class from_dict message =
     (case loads message of Inl e \<Rightarrow> Inl e | Inr parsed \<Rightarrow>
     (case getitem parsed ''ContentKey'' of Inl e \<Rightarrow> Inl e | Inr ck \<Rightarrow>
     (case getitem parsed ''ContentHash'' of Inl e \<Rightarrow> Inl e | Inr ch \<Rightarrow>
     (case getitem parsed ''MatchingBankedSignals'' of Inl e \<Rightarrow> Inl e | Inr ds \<Rightarrow>
     (case map_result from_dict (iter_json ds) of Inl e \<Rightarrow> Inl e | Inr signals \<Rightarrow>
     (case getitem parsed ''ReactionLabelValue'' of Inl e \<Rightarrow> Inl e | Inr lv \<Rightarrow>
     (case as_str lv of Inl e \<Rightarrow> Inl e | Inr lv' \<Rightarrow>
     (case new_label label_class [lv'] of Inl e \<Rightarrow> Inl e | Inr label \<Rightarrow>
     (case as_str ck of Inl e \<Rightarrow> Inl e | Inr ck' \<Rightarrow>
     (case as_str ch of Inl e \<Rightarrow> Inl e | Inr ch' \<Rightarrow>
        Inr \<lparr>MatchMessage.content_key = ck', content_hash = ch',
             matching_banked_signals = signals,
             reaction_label = label\<rparr>))))))))))"

definition ReactionMessage_from_aws_message ::
  "(json \<Rightarrow> py_error + 's) \<Rightarrow> string \<Rightarrow> py_error + 's ReactionMessage" where
  "ReactionMessage_from_aws_message from_dict message =
     ReactionMessage_from_aws_message_with ThreatExchangeReactionLabel_class from_dict message"

definition ReactionMessage_from_match_message_and_label ::
  "'s MatchMessage \<Rightarrow> Label \<Rightarrow> 's ReactionMessage" where
  "ReactionMessage_from_match_message_and_label match_message threat_exchange_reaction_label =
     \<lparr>MatchMessage.content_key = MatchMessage.content_key match_message,
      content_hash = MatchMessage.content_hash match_message,
      matching_banked_signals = matching_banked_signals match_message,
      reaction_label = threat_exchange_reaction_label\<rparr>"

subsection \<open>The parts of hmalib.models that the examples need\<close>

text \<open>
  Modelled from the spec: \<open>BankedSignal\<close> with its \<open>to_dict\<close> and \<open>from_dict\<close>, and
  \<open>MatchMessage.to_sns_message\<close> and \<open>from_sns_message\<close>; \<open>hmalib/models.py\<close> is
  not among the sources. A banked signal "identifies the signal id, the bank name, and
  the bank's source" (the sources build one from three strings), and the inbound event
  wraps "a JSON-encoded MatchMessage equivalent to" a dict with the fields ContentKey,
  ContentHash and MatchingBankedSignals. The field names of a signal's dict are not in
  the spec; no result depends on them. These definitions are used at concrete inputs
  only.
\<close>

record BankedSignal =
  signal_id :: string
  bank_name :: string
  bank_source :: string

definition BankedSignal_to_dict :: "BankedSignal \<Rightarrow> json" where
  "BankedSignal_to_dict self =
     JObj [(''SignalId'', JStr (signal_id self)),
           (''BankName'', JStr (bank_name self)),
           (''BankSource'', JStr (bank_source self))]"

definition BankedSignal_from_dict :: "json \<Rightarrow> py_error + BankedSignal" where
  "BankedSignal_from_dict d =
     (case getitem d ''SignalId'' of Inl e \<Rightarrow> Inl e | Inr a \<Rightarrow>
     (case getitem d ''BankName'' of Inl e \<Rightarrow> Inl e | Inr b \<Rightarrow>
     (case getitem d ''BankSource'' of Inl e \<Rightarrow> Inl e | Inr c \<Rightarrow>
     (case as_str a of Inl e \<Rightarrow> Inl e | Inr a' \<Rightarrow>
     (case as_str b of Inl e \<Rightarrow> Inl e | Inr b' \<Rightarrow>
     (case as_str c of Inl e \<Rightarrow> Inl e | Inr c' \<Rightarrow>
        Inr \<lparr>signal_id = a', bank_name = b', bank_source = c'\<rparr>))))))"

definition MatchMessage_to_sns_message :: "BankedSignal MatchMessage \<Rightarrow> json" where
  "MatchMessage_to_sns_message self =
     JObj [(''ContentKey'', JStr (MatchMessage.content_key self)),
           (''ContentHash'', JStr (MatchMessage.content_hash self)),
           (''MatchingBankedSignals'',
              JArr (map BankedSignal_to_dict (matching_banked_signals self)))]"

definition MatchMessage_from_sns_message :: "string \<Rightarrow> py_error + BankedSignal MatchMessage" where
  "MatchMessage_from_sns_message message =
     (case loads message of Inl e \<Rightarrow> Inl e | Inr parsed \<Rightarrow>
     (case getitem parsed ''ContentKey'' of Inl e \<Rightarrow> Inl e | Inr ck \<Rightarrow>
     (case getitem parsed ''ContentHash'' of Inl e \<Rightarrow> Inl e | Inr ch \<Rightarrow>
     (case getitem parsed ''MatchingBankedSignals'' of Inl e \<Rightarrow> Inl e | Inr ds \<Rightarrow>
     (case map_result BankedSignal_from_dict (iter_json ds) of Inl e \<Rightarrow> Inl e | Inr signals \<Rightarrow>
     (case as_str ck of Inl e \<Rightarrow> Inl e | Inr ck' \<Rightarrow>
     (case as_str ch of Inl e \<Rightarrow> Inl e | Inr ch' \<Rightarrow>
        Inr \<lparr>MatchMessage.content_key = ck', content_hash = ch',
             matching_banked_signals = signals\<rparr>)))))))"

section \<open>Action performers (hmalib/common/actioner_models.py)\<close>

text \<open>
  The four webhook performers differ in their \<open>call\<close> method only. Each has a name (from
  the config class it extends) and a url.
\<close>

datatype ActionPerformer =
    WebhookPostActionPerformer string string
  | WebhookGetActionPerformer string string
  | WebhookPutActionPerformer string string
  | WebhookDeleteActionPerformer string string

fun url :: "ActionPerformer \<Rightarrow> string" where
  "url (WebhookPostActionPerformer n u) = u"
| "url (WebhookGetActionPerformer n u) = u"
| "url (WebhookPutActionPerformer n u) = u"
| "url (WebhookDeleteActionPerformer n u) = u"

text \<open>
  The functions of the requests library are the outside world: a request either raises
  (no connection, a timeout) or returns a response, whatever its status code. The
  library is a parameter \<open>http\<close>.
\<close>

datatype request =
    Post string string
  | Get string
  | Put string string
  | Delete string

record Response =
  status_code :: nat

text \<open>
  \<^verbatim>\<open>
  def call(self, data: str) -> Response:      # POST, PUT
      return post(self.url, data)
  def call(self, _data: str) -> Response:     # GET, DELETE
      return get(self.url)
  \<close>
  The name of the parameter after \<open>self\<close>, and the request each method sends.
\<close>

fun call_parameter :: "ActionPerformer \<Rightarrow> string" where
  "call_parameter (WebhookPostActionPerformer n u) = ''data''"
| "call_parameter (WebhookGetActionPerformer n u) = ''_data''"
| "call_parameter (WebhookPutActionPerformer n u) = ''data''"
| "call_parameter (WebhookDeleteActionPerformer n u) = ''_data''"

fun call_request :: "ActionPerformer \<Rightarrow> string \<Rightarrow> request" where
  "call_request (WebhookPostActionPerformer n u) d = Post u d"
| "call_request (WebhookGetActionPerformer n u) d = Get u"
| "call_request (WebhookPutActionPerformer n u) d = Put u d"
| "call_request (WebhookDeleteActionPerformer n u) d = Delete u"

text \<open>
  A call \<open>self.call(kw=d)\<close> with one keyword argument: a keyword that is not the name
  of the method's parameter raises TypeError before the body runs.
\<close>

definition call :: "(request \<Rightarrow> py_error + Response) \<Rightarrow> ActionPerformer \<Rightarrow> string \<Rightarrow> string
    \<Rightarrow> py_error + Response" where
  "call http self kw d =
     (if kw = call_parameter self then http (call_request self d) else Inl TypeError)"

text \<open>
  \<^verbatim>\<open>
  def perform_action(self, match_message: MatchMessage) -> None:
      self.call(data=match_message.to_aws_message())
  \<close>
  The message's \<open>to_aws_message\<close> is a parameter. The method returns \<open>None\<close>.
\<close>

definition perform_action :: "(request \<Rightarrow> py_error + Response) \<Rightarrow> ('m \<Rightarrow> string) \<Rightarrow> ActionPerformer
    \<Rightarrow> 'm \<Rightarrow> py_error + unit" where
  "perform_action http to_aws_message self match_message =
     (case call http self ''data'' (to_aws_message match_message) of
        Inl e \<Rightarrow> Inl e
      | Inr response \<Rightarrow> Inr ())"

section \<open>The evaluator (hmalib/lambdas/actions/action_evaluator.py)\<close>

definition get_action_rules :: "ActionRule list" where
  "get_action_rules =
     [\<lparr>ActionRule.action_label = ActionLabel ''EnqueueForReview'',
       must_have_labels = [\<lparr>key = ''Collaboration'', value = ''12345''\<rparr>],
       must_not_have_labels = []\<rparr>]"

text \<open>
  \<^verbatim>\<open>
  def action_rule_applies_to_match_message(action_rule, match_message) -> bool:
      """
      Evaluate if the action rule applies to the match message. Return True if the
      action rule's "must have" labels are all present in the match message, and that
      none of the "must not have" labels are present in the match message, otherwise
      return False.
      """
      return True
  \<close>
\<close>

definition action_rule_applies_to_match_message :: "ActionRule \<Rightarrow> 's MatchMessage \<Rightarrow> bool" where
  "action_rule_applies_to_match_message action_rule match_message = True"

definition get_actions :: "Action list" where
  "get_actions =
     [\<lparr>Action.action_label = ActionLabel ''ENQUEUE_FOR_REVIEW'',
       priority = 1,
       superseded_by = [ActionLabel ''A_MORE_IMPORTANT_ACTION'']\<rparr>]"

text \<open>
  \<^verbatim>\<open>
  def remove_superseded_actions(action_labels):
      """
      TODO implement
      Evaluates a collection of ActionLabels generated for a match message against the
      actions. Action labels that are superseded by another will be removed.
      """
      return action_labels
  \<close>
\<close>

definition remove_superseded_actions :: "Label list \<Rightarrow> Label list" where
  "remove_superseded_actions action_labels = action_labels"

text \<open>
  The loop of \<open>get_action_labels\<close> over the rules, with the list it appends to:
  \<^verbatim>\<open>
  for action_rule in action_rules:
      if action_rule_applies_to_match_message(
          action_rule, match_message
      ) and not action_labels.__contains__(action_rule.action_label):
          action_labels.append(action_rule.action_label)
  \<close>
\<close>

fun collect_action_labels :: "ActionRule list \<Rightarrow> 's MatchMessage \<Rightarrow> Label list \<Rightarrow> Label list" where
  "collect_action_labels [] match_message action_labels = action_labels"
| "collect_action_labels (action_rule # action_rules) match_message action_labels =
     collect_action_labels action_rules match_message
       (if action_rule_applies_to_match_message action_rule match_message
           \<and> ActionRule.action_label action_rule \<notin> set action_labels
        then action_labels @ [ActionRule.action_label action_rule]
        else action_labels)"

definition get_action_labels_of :: "ActionRule list \<Rightarrow> 's MatchMessage \<Rightarrow> Label list" where
  "get_action_labels_of action_rules match_message =
     remove_superseded_actions (collect_action_labels action_rules match_message [])"

definition get_action_labels :: "'s MatchMessage \<Rightarrow> Label list" where
  "get_action_labels match_message = get_action_labels_of get_action_rules match_message"

definition threat_exchange_reacting_is_enabled :: "'s MatchMessage \<Rightarrow> bool" where
  "threat_exchange_reacting_is_enabled match_message = True"

definition get_threat_exchange_reaction_labels :: "'s MatchMessage \<Rightarrow> Label list \<Rightarrow> Label list" where
  "get_threat_exchange_reaction_labels match_message action_labels =
     [ThreatExchangeReactionLabel ''SAW_THIS_TOO'']"

subsection \<open>The handler and what it does to the outside\<close>

text \<open>
  The handler's effects are recorded as the list of the calls it makes: a message sent
  to a queue, a line logged, and (so that the order of evaluation can be read off) the
  two reaction functions it calls.
\<close>

datatype 's call =
    Send_message string string
  | Log string string
  | Get_threat_exchange_reaction_labels "'s MatchMessage" "Label list"
  | React_to_threat_exchange "'s MatchMessage" Label

text \<open>
  \<open>get_logger\<close> comes from \<open>hmalib.common.logging\<close>, which is not among the sources;
  it is taken to return a logger of the standard library, whose logging methods are
  these. A call of another attribute raises AttributeError.
\<close>

definition logger_methods :: "string list" where
  "logger_methods =
     [''debug'', ''info'', ''warning'', ''warn'', ''error'', ''exception'', ''critical'',
      ''fatal'', ''log'']"

definition logger_call :: "string \<Rightarrow> string \<Rightarrow> py_error + 's call" where
  "logger_call method msg =
     (if method \<in> set logger_methods then Inr (Log method msg) else Inl AttributeError)"

text \<open>Statements in sequence: the calls made so far, and the exception that ended them.\<close>

fun run :: "(py_error + 's call) list \<Rightarrow> 's call list \<times> (py_error + unit)" where
  "run [] = ([], Inr ())"
| "run (Inl e # stmts) = ([], Inl e)"
| "run (Inr c # stmts) = (case run stmts of (cs, r) \<Rightarrow> (c # cs, r))"

text \<open>
  \<^verbatim>\<open>
  def react_to_threat_exchange(match_message, threat_exchange_reaction_label) -> None:
      logger.info(
          "The contents of a ThreatExchangeReactionMessage will contain the following:"
      )
      logger.ingo("match_message = %s", match_message)
      logger.info("threat_exchange_reaction_label = %s", threat_exchange_reaction_label)
  \<close>
\<close>

definition react_to_threat_exchange :: "'s MatchMessage \<Rightarrow> Label \<Rightarrow> 's call list \<times> (py_error + unit)" where
  "react_to_threat_exchange match_message threat_exchange_reaction_label =
     run [Inr (React_to_threat_exchange match_message threat_exchange_reaction_label),
          logger_call ''info''
            ''The contents of a ThreatExchangeReactionMessage will contain the following:'',
          logger_call ''ingo'' ''match_message = %s'',
          logger_call ''info'' ''threat_exchange_reaction_label = %s'']"

text \<open>A \<open>for\<close> loop whose body can raise: the first exception ends it.\<close>

fun for_each :: "('a \<Rightarrow> 's call list \<times> (py_error + unit)) \<Rightarrow> 'a list
    \<Rightarrow> 's call list \<times> (py_error + unit)" where
  "for_each body [] = ([], Inr ())"
| "for_each body (x # xs) =
     (case body x of
        (cs, Inl e) \<Rightarrow> (cs, Inl e)
      | (cs, Inr u) \<Rightarrow> (case for_each body xs of (cs', r) \<Rightarrow> (cs @ cs', r)))"

text \<open>
  The environment of the handler: the queue url it reads from the process environment,
  and the two methods of \<open>MatchMessage\<close> it calls.
\<close>

record 's env =
  ACTIONS_QUEUE_URL :: string
  from_sns_message :: "string \<Rightarrow> py_error + 's MatchMessage"
  to_sns_message :: "'s MatchMessage \<Rightarrow> json"

text \<open>
  Lines 56 to 68, with the reacting-enabled check as an argument:
  \<^verbatim>\<open>
  if threat_exchange_reacting_is_enabled(match_message):
      threat_exchange_reaction_labels = get_threat_exchange_reaction_labels(
          match_message, action_labels
      )
      if threat_exchange_reaction_labels:
          for threat_exchange_reaction_label in threat_exchange_reaction_labels:
              react_to_threat_exchange(
                  match_message, threat_exchange_reaction_label
              )
  \<close>
\<close>

definition react :: "('s MatchMessage \<Rightarrow> bool) \<Rightarrow> 's MatchMessage \<Rightarrow> Label list
    \<Rightarrow> 's call list \<times> (py_error + unit)" where
  "react reacting_is_enabled match_message action_labels =
     (if reacting_is_enabled match_message then
        (let threat_exchange_reaction_labels =
               get_threat_exchange_reaction_labels match_message action_labels
         in case (if threat_exchange_reaction_labels \<noteq> []
                  then for_each (react_to_threat_exchange match_message)
                         threat_exchange_reaction_labels
                  else ([], Inr ())) of
              (cs, r) \<Rightarrow>
                (Get_threat_exchange_reaction_labels match_message action_labels # cs, r))
      else ([], Inr ()))"

text \<open>
  The body of the loop over the records, lines 34 to 68. A record is given by its
  \<open>body\<close>, the text of an SNS notification whose \<open>Message\<close> is the match message.
  \<^verbatim>\<open>
  sns_notification = json.loads(sqs_record["body"])
  match_message: MatchMessage = MatchMessage.from_sns_message(
      sns_notification["Message"]
  )
  logger.info("Evaluating match_message: %s", match_message)
  action_labels = get_action_labels(match_message)
  for action_label in action_labels:
      sqs_client.send_message(
          QueueUrl=ACTIONS_QUEUE_URL,
          MessageBody=json.dumps(match_message.to_sns_message()),
      )
  \<close>
\<close>

definition handle_record :: "'s env \<Rightarrow> ('s MatchMessage \<Rightarrow> bool) \<Rightarrow> string
    \<Rightarrow> 's call list \<times> (py_error + unit)" where
  "handle_record env reacting_is_enabled body =
     (case loads body of Inl e \<Rightarrow> ([], Inl e) | Inr sns_notification \<Rightarrow>
     (case getitem sns_notification ''Message'' of Inl e \<Rightarrow> ([], Inl e) | Inr msg \<Rightarrow>
     (case as_str msg of Inl e \<Rightarrow> ([], Inl e) | Inr message \<Rightarrow>
     (case from_sns_message env message of Inl e \<Rightarrow> ([], Inl e) | Inr match_message \<Rightarrow>
     (case run [logger_call ''info'' ''Evaluating match_message: %s''] of
        (cs0, Inl e) \<Rightarrow> (cs0, Inl e)
      | (cs0, Inr u) \<Rightarrow>
          (let action_labels = get_action_labels match_message;
               cs1 = map (\<lambda>action_label.
                            Send_message (ACTIONS_QUEUE_URL env)
                              (dumps (to_sns_message env match_message)))
                       action_labels
           in case react reacting_is_enabled match_message action_labels of
                (cs2, r) \<Rightarrow> (cs0 @ cs1 @ cs2, r)))))))"

definition lambda_handler_with :: "'s env \<Rightarrow> ('s MatchMessage \<Rightarrow> bool) \<Rightarrow> string list
    \<Rightarrow> 's call list \<times> (py_error + (string \<times> string) list)" where
  "lambda_handler_with env reacting_is_enabled records =
     (case for_each (handle_record env reacting_is_enabled) records of
        (cs, Inl e) \<Rightarrow> (cs, Inl e)
      | (cs, Inr u) \<Rightarrow> (cs, Inr [(''action_evaluated'', ''true'')]))"

text \<open>The handler of the sources: the check is \<open>threat_exchange_reacting_is_enabled\<close>.\<close>

definition lambda_handler :: "'s env \<Rightarrow> string list
    \<Rightarrow> 's call list \<times> (py_error + (string \<times> string) list)" where
  "lambda_handler env records =
     lambda_handler_with env threat_exchange_reacting_is_enabled records"

subsection \<open>What the spec asks of the two unfinished functions\<close>

text \<open>
  The rule test in the words of the spec, over the labels derived from a match message
  (the sources do not derive any): every must-have label is among them and no
  must-not-have label is.
\<close>

definition applies_spec :: "Label list \<Rightarrow> ActionRule \<Rightarrow> bool" where
  "applies_spec derived_labels rule =
     (list_all (\<lambda>l. l \<in> set derived_labels) (must_have_labels rule)
      \<and> list_all (\<lambda>l. l \<notin> set derived_labels) (must_not_have_labels rule))"

text \<open>
  Supersession in the words of the spec: a label \<open>X\<close> goes when another label \<open>Y\<close> of
  the list is in the \<open>superseded_by\<close> of the catalog's action for \<open>X\<close>.
\<close>

definition superseded_spec :: "Action list \<Rightarrow> Label list \<Rightarrow> Label \<Rightarrow> bool" where
  "superseded_spec actions action_labels x =
     list_ex (\<lambda>y. y \<noteq> x \<and>
                list_ex (\<lambda>a. Action.action_label a = x \<and> y \<in> set (superseded_by a)) actions)
       action_labels"

definition remove_superseded_spec :: "Action list \<Rightarrow> Label list \<Rightarrow> Label list" where
  "remove_superseded_spec actions action_labels =
     filter (\<lambda>x. \<not> superseded_spec actions action_labels x) action_labels"

section \<open>Durable records (hmalib/dto.py)\<close>

text \<open>
  An item is a dict from attribute names to strings or integers, written as the list of
  its entries in the order of the dict literal. The timestamp is a
  \<open>datetime.datetime\<close>; its \<open>isoformat\<close> method belongs to the standard library and is
  a parameter here.
\<close>

datatype attr = S string | N int

record 'dt PDQRecordBase =
  content_key :: string
  content_hash :: string
  timestamp :: 'dt

definition SIGNAL_TYPE :: string where
  "SIGNAL_TYPE = ''pdq''"

definition get_dynamodb_content_key :: "string \<Rightarrow> string" where
  "get_dynamodb_content_key k = ''c#'' @ k"

definition get_dynamodb_type_key :: "string \<Rightarrow> string" where
  "get_dynamodb_type_key k = ''type#'' @ k"

record 'dt PipelinePDQHashRecord = "'dt PDQRecordBase" +
  quality :: int

definition PipelinePDQHashRecord_to_dynamodb_item ::
  "('dt \<Rightarrow> string) \<Rightarrow> 'dt PipelinePDQHashRecord \<Rightarrow> (string \<times> attr) list" where
  "PipelinePDQHashRecord_to_dynamodb_item isoformat self =
     [(''PK'', S (get_dynamodb_content_key (content_key self))),
      (''SK'', S (get_dynamodb_type_key SIGNAL_TYPE)),
      (''ContentHash'', S (content_hash self)),
      (''Quality'', N (quality self)),
      (''Timestamp'', S (isoformat (timestamp self))),
      (''HashType'', S SIGNAL_TYPE)]"

definition PipelinePDQHashRecord_to_sqs_message ::
  "'dt PipelinePDQHashRecord \<Rightarrow> (string \<times> string) list" where
  "PipelinePDQHashRecord_to_sqs_message self =
     [(''hash'', content_hash self), (''type'', SIGNAL_TYPE), (''key'', content_key self)]"

text \<open>
  \<open>te_id\<close> is an \<open>int\<close>; \<open>get_dynamodb_te_key\<close> puts it into an f-string, which
  writes its decimal digits.
\<close>

record 'dt PDQMatchRecord = "'dt PDQRecordBase" +
  te_id :: int
  te_hash :: string

definition get_dynamodb_te_key :: "int \<Rightarrow> string" where
  "get_dynamodb_te_key k = ''te#'' @ str_int k"

definition PDQMatchRecord_to_dynamodb_item ::
  "('dt \<Rightarrow> string) \<Rightarrow> 'dt PDQMatchRecord \<Rightarrow> (string \<times> attr) list" where
  "PDQMatchRecord_to_dynamodb_item isoformat self =
     [(''PK'', S (get_dynamodb_content_key (content_key self))),
      (''SK'', S (get_dynamodb_te_key (te_id self))),
      (''ContentHash'', S (content_hash self)),
      (''Timestamp'', S (isoformat (timestamp self))),
      (''TEHash'', S (te_hash self)),
      (''GSI1-PK'', S (get_dynamodb_te_key (te_id self))),
      (''GSI1-SK'', S (get_dynamodb_content_key (content_key self))),
      (''HashType'', S SIGNAL_TYPE),
      (''GSI2-PK'', S (get_dynamodb_type_key SIGNAL_TYPE))]"

text \<open>\<open>PDQMatchRecord.to_sqs_message\<close> is not written yet: it raises.\<close>

definition PDQMatchRecord_to_sqs_message ::
  "'dt PDQMatchRecord \<Rightarrow> py_error + (string \<times> string) list" where
  "PDQMatchRecord_to_sqs_message self = Inl NotImplementedError"

section \<open>Concrete inputs\<close>

text \<open>
  The match message that the main block of \<open>actioner_models.py\<close> builds:
  \<^verbatim>\<open>
  banked_signals = [
      BankedSignal("2862392437204724", "bank 4", "te"),
      BankedSignal("4194946153908639", "bank 4", "te"),
  ]
  match_message = MatchMessage("key", "hash", banked_signals)
  \<close>
\<close>

definition banked_signals :: "BankedSignal list" where
  "banked_signals =
     [\<lparr>signal_id = ''2862392437204724'', bank_name = ''bank 4'', bank_source = ''te''\<rparr>,
      \<lparr>signal_id = ''4194946153908639'', bank_name = ''bank 4'', bank_source = ''te''\<rparr>]"

definition match_message :: "BankedSignal MatchMessage" where
  "match_message =
     \<lparr>MatchMessage.content_key = ''key'', content_hash = ''hash'',
      matching_banked_signals = banked_signals\<rparr>"

text \<open>The one that the main block of \<open>action_evaluator.py\<close> builds, without signals.\<close>

definition bare_match_message :: "BankedSignal MatchMessage" where
  "bare_match_message =
     \<lparr>MatchMessage.content_key = ''key'', content_hash = ''hash'',
      matching_banked_signals = []\<rparr>"

text \<open>
  An environment for the handler, and the body of a queue record that carries a match
  message: the text of a notification whose \<open>Message\<close> is the text of the message.
\<close>

definition example_env :: "BankedSignal env" where
  "example_env =
     \<lparr>ACTIONS_QUEUE_URL = ''https://sqs.example/actions'',
      from_sns_message = MatchMessage_from_sns_message,
      to_sns_message = MatchMessage_to_sns_message\<rparr>"

definition record_body :: "BankedSignal MatchMessage \<Rightarrow> string" where
  "record_body m = dumps (JObj [(''Message'', JStr (dumps (MatchMessage_to_sns_message m)))])"

text \<open>A web server that answers every request with the same status code.\<close>

definition always_responds :: "nat \<Rightarrow> request \<Rightarrow> py_error + Response" where
  "always_responds code q = Inr \<lparr>status_code = code\<rparr>"

fun is_send :: "'s call \<Rightarrow> bool" where
  "is_send (Send_message q b) = True"
| "is_send (Log level msg) = False"
| "is_send (Get_threat_exchange_reaction_labels m ls) = False"
| "is_send (React_to_threat_exchange m l) = False"

text \<open>A reacting-enabled check that finds reacting switched off, for every message.\<close>

definition reacting_disabled :: "'s MatchMessage \<Rightarrow> bool" where
  "reacting_disabled m = False"

section \<open>Reading back what was written\<close>

lemma unhex_hexdigit: "n < 16 \<Longrightarrow> unhex (hexdigit n) = Some n"
  by (auto simp: unhex_def hexdigit_def Let_def)

lemma unhex_zero: "unhex CHR ''0'' = Some 0"
  by (simp add: unhex_def)

lemma decode_escape:
  "decode_uXXXX CHR ''0'' CHR ''0'' (hexdigit (of_char c div 16)) (hexdigit (of_char c mod 16))
   = Some (of_char c)"
proof -
  have "(of_char c :: nat) < 256" by simp
  then have "(of_char c :: nat) div 16 < 16" by arith
  then show ?thesis
    by (simp add: decode_uXXXX_def unhex_zero unhex_hexdigit)
qed

lemma scanstring_escape_char: "scanstring (escape_char c @ t) = consr c (scanstring t)"
proof -
  consider "c = CHR 0x22" | "c = CHR 0x5C" | "c = CHR 0x0A" | "c = CHR 0x0D" | "c = CHR 0x09"
    | "c = CHR 0x08" | "c = CHR 0x0C"
    | "c \<notin> {CHR 0x22, CHR 0x5C, CHR 0x0A, CHR 0x0D, CHR 0x09, CHR 0x08, CHR 0x0C}"
      "(of_char c :: nat) < 32 \<or> 126 < (of_char c :: nat)"
    | "c \<notin> {CHR 0x22, CHR 0x5C, CHR 0x0A, CHR 0x0D, CHR 0x09, CHR 0x08, CHR 0x0C}"
      "\<not> ((of_char c :: nat) < 32 \<or> 126 < (of_char c :: nat))"
    by blast
  then show ?thesis
  proof cases
    case 8
    then show ?thesis
      by (simp add: escape_char_def decode_escape)
  next
    case 9
    then show ?thesis
      by (simp add: escape_char_def)
  qed (simp_all add: escape_char_def BACKSLASH_def)
qed

lemma scanstring_escaped:
  "scanstring (concat (map escape_char s) @ CHR 0x22 # rest) = Inr (s, rest)"
  by (induction s) (simp_all add: scanstring_escape_char consr_def)

lemma dumps_Cons:
  "\<exists>c cs. dumps v = c # cs \<and> \<not> is_ws c \<and> c \<noteq> CHR '']'' \<and> c \<noteq> CHR ''}''"
  by (cases v) (simp_all add: encode_basestring_ascii_def is_ws_def)

lemma skip_ws_dumps: "skip_ws (dumps v @ t) = dumps v @ t"
  using dumps_Cons [of v] by auto

lemma dumps_list_Cons: "\<exists>t. dumps_list (v # vs) = dumps v @ t"
  by (cases vs) simp_all

text \<open>
  The scanner reads a written value back and stops right after it, for a list from its
  first element to the closing bracket, for a dict from its first key to the closing
  brace, whenever its depth bound is at least the length of what was written.
\<close>

lemma scan_dumps:
  "(\<forall>n rest. length (dumps v) \<le> n \<longrightarrow> scan_once n (dumps v @ rest) = Inr (v, rest))"
  "(\<forall>n rest. vs \<noteq> [] \<longrightarrow> length (dumps_list vs) < n \<longrightarrow>
      JSONArray n (dumps_list vs @ CHR '']'' # rest) = Inr (vs, rest))"
  "(\<forall>n rest. kvs \<noteq> [] \<longrightarrow> length (dumps_items kvs) < n \<longrightarrow>
      JSONObject n (tl (dumps_items kvs) @ CHR ''}'' # rest) = Inr (kvs, rest))"
proof (induction v and vs and kvs rule: dumps_dumps_list_dumps_items.induct)
  case (1 s)
  show ?case
  proof (intro allI impI)
    fix n rest assume "length (dumps (JStr s)) \<le> n"
    then obtain m where "n = Suc m" by (cases n) (simp_all add: encode_basestring_ascii_def)
    then show "scan_once n (dumps (JStr s) @ rest) = Inr (JStr s, rest)"
      by (simp add: encode_basestring_ascii_def scanstring_escaped)
  qed
next
  case (2 vs)
  show ?case
  proof (intro allI impI)
    fix n rest assume le: "length (dumps (JArr vs)) \<le> n"
    then obtain m where n: "n = Suc m" by (cases n) simp_all
    show "scan_once n (dumps (JArr vs) @ rest) = Inr (JArr vs, rest)"
    proof (cases vs)
      case Nil
      then show ?thesis using n by (simp add: is_ws_def)
    next
      case (Cons w ws)
      obtain t where t: "dumps_list vs = dumps w @ t"
        using dumps_list_Cons Cons by blast
      obtain c cs where c: "dumps w = c # cs" "\<not> is_ws c" "c \<noteq> CHR '']''"
        using dumps_Cons by blast
      have "JSONArray m (dumps_list vs @ CHR '']'' # rest) = Inr (vs, rest)"
        using 2 le n Cons by simp
      then show ?thesis using n t c by simp
    qed
  qed
next
  case (3 kvs)
  show ?case
  proof (intro allI impI)
    fix n rest assume le: "length (dumps (JObj kvs)) \<le> n"
    then obtain m where n: "n = Suc m" by (cases n) simp_all
    show "scan_once n (dumps (JObj kvs) @ rest) = Inr (JObj kvs, rest)"
    proof (cases kvs)
      case Nil
      then show ?thesis using n by (simp add: is_ws_def)
    next
      case (Cons kv kvs')
      obtain k v where kv: "kv = (k, v)" by (cases kv)
      obtain t where t: "dumps_items kvs = CHR 0x22 # t"
        using Cons kv by (cases kvs') (simp_all add: encode_basestring_ascii_def)
      have "JSONObject m (tl (dumps_items kvs) @ CHR ''}'' # rest) = Inr (kvs, rest)"
        using 3 le n Cons by simp
      then show ?thesis using n t by (simp add: is_ws_def)
    qed
  qed
next
  case 4
  show ?case by simp
next
  case (5 v)
  show ?case
  proof (intro allI impI)
    fix n rest assume lt: "length (dumps_list [v]) < n"
    then obtain m where n: "n = Suc m" by (cases n) simp_all
    have "scan_once m (dumps v @ CHR '']'' # rest) = Inr (v, CHR '']'' # rest)"
      using 5 lt n by simp
    then show "JSONArray n (dumps_list [v] @ CHR '']'' # rest) = Inr ([v], rest)"
      using n by (simp add: is_ws_def)
  qed
next
  case (6 v w vs)
  show ?case
  proof (intro allI impI)
    fix n rest assume lt: "length (dumps_list (v # w # vs)) < n"
    then obtain m where n: "n = Suc m" by (cases n) simp_all
    let ?t = "dumps_list (w # vs) @ CHR '']'' # rest"
    have a: "scan_once m (dumps v @ CHR '','' # CHR '' '' # ?t) = Inr (v, CHR '','' # CHR '' '' # ?t)"
      using 6(1) lt n by simp
    obtain u where u: "dumps_list (w # vs) = dumps w @ u"
      using dumps_list_Cons by blast
    have b: "skip_ws ?t = ?t"
      using skip_ws_dumps [of w] u by simp
    have c: "JSONArray m ?t = Inr (w # vs, rest)"
      using 6(2) lt n by simp
    show "JSONArray n (dumps_list (v # w # vs) @ CHR '']'' # rest) = Inr (v # w # vs, rest)"
      using n a b c by (simp add: is_ws_def)
  qed
next
  case 7
  show ?case by simp
next
  case (8 k v)
  show ?case
  proof (intro allI impI)
    fix n rest assume lt: "length (dumps_items [(k, v)]) < n"
    then obtain m where n: "n = Suc m" by (cases n) simp_all
    have a: "scan_once m (dumps v @ CHR ''}'' # rest) = Inr (v, CHR ''}'' # rest)"
      using 8 lt n by simp
    show "JSONObject n (tl (dumps_items [(k, v)]) @ CHR ''}'' # rest) = Inr ([(k, v)], rest)"
      using n a skip_ws_dumps [of v]
      by (simp add: encode_basestring_ascii_def scanstring_escaped is_ws_def)
  qed
next
  case (9 k v kv kvs)
  show ?case
  proof (intro allI impI)
    fix n rest assume lt: "length (dumps_items ((k, v) # kv # kvs)) < n"
    then obtain m where n: "n = Suc m" by (cases n) simp_all
    let ?t = "dumps_items (kv # kvs) @ CHR ''}'' # rest"
    have a: "scan_once m (dumps v @ CHR '','' # CHR '' '' # ?t) = Inr (v, CHR '','' # CHR '' '' # ?t)"
      using 9(1) lt n by simp
    obtain u where u: "dumps_items (kv # kvs) = CHR 0x22 # u"
      by (cases kv; cases kvs) (simp_all add: encode_basestring_ascii_def)
    have c: "JSONObject m (u @ CHR ''}'' # rest) = Inr (kv # kvs, rest)"
      using 9(2) lt n u by simp
    show "JSONObject n (tl (dumps_items ((k, v) # kv # kvs)) @ CHR ''}'' # rest)
          = Inr ((k, v) # kv # kvs, rest)"
      using n a c u skip_ws_dumps [of v]
      by (simp add: encode_basestring_ascii_def scanstring_escaped is_ws_def)
  qed
qed

lemma loads_dumps: "loads (dumps v) = Inr v"
proof -
  have "scan_once (length (dumps v)) (dumps v @ []) = Inr (v, [])"
    using scan_dumps(1) [of v] by blast
  then show ?thesis
    using skip_ws_dumps [of v "[]"] by (simp add: loads_def)
qed

lemma dumps_inject: "dumps a = dumps b \<Longrightarrow> a = b"
proof -
  assume "dumps a = dumps b"
  then have "loads (dumps a) = loads (dumps b)" by (rule arg_cong)
  then show ?thesis by (simp only: loads_dumps sum.inject)
qed

section \<open>Label equality\<close>

lemma py_eq_label: "py_eq l (PyLabel r) = Inr (key l = key r \<and> value l = value r)"
  by (simp add: py_eq_def)

lemma py_eq_other: "py_eq l (PyOther v) = Inr False"
  by (simp add: py_eq_def)

lemma py_ne_label: "py_ne l (PyLabel r) = Inr (\<not> (key l = key r \<and> value l = value r))"
  by (simp add: py_ne_def Label_ne_def)

lemma py_ne_other: "py_ne l (PyOther v) = Inr True"
  by (simp add: py_ne_def Label_ne_def)

lemma Label_eq_iff: "(l = r) = (key l = key r \<and> value l = value r)" for l r :: Label
  by (cases l, cases r) simp

text \<open>
  C6. Two labels are equal exactly when their keys are equal and their values are equal:
  \<open>Label("K","V") == Label("K","V")\<close> is true, \<open>Label("K","V") != Label("K","X")\<close>
  is true, and comparing a label with a value that is not a label gives the defined
  answer "not equal" (\<open>==\<close> is false, \<open>!=\<close> is true), never an exception.
\<close>

theorem label_equality_componentwise:
  "py_eq \<lparr>key = ''K'', value = ''V''\<rparr> (PyLabel \<lparr>key = ''K'', value = ''V''\<rparr>) = Inr True
   \<and> py_ne \<lparr>key = ''K'', value = ''V''\<rparr> (PyLabel \<lparr>key = ''K'', value = ''X''\<rparr>) = Inr True
   \<and> (\<forall>l r. py_eq l (PyLabel r) = Inr (l = r))
   \<and> (\<forall>l r. py_ne l (PyLabel r) = Inr (l \<noteq> r))
   \<and> (\<forall>l v. py_eq l (PyOther v) = Inr False \<and> py_ne l (PyOther v) = Inr True)"
  by (simp add: py_eq_label py_ne_label py_eq_other py_ne_other Label_eq_iff)

section \<open>The encoding of the durable records\<close>

lemma str_nat_42: "str_nat 42 = ''42''"
  by code_simp

text \<open>
  C7. The item of a hash record has the partition key \<open>c#<content_key>\<close>, the sort key
  \<open>type#<hash_type>\<close> and the attributes ContentHash, Quality, Timestamp (what
  \<open>isoformat\<close> writes) and HashType, and nothing else. The item of a match record has
  the partition key \<open>c#<content_key>\<close>, the sort key \<open>te#<bank_entry_id>\<close>, the
  attributes ContentHash, Timestamp, TEHash and HashType, the projections
  \<open>GSI1-PK = te#<bank_entry_id>\<close>, \<open>GSI1-SK = c#<content_key>\<close> and
  \<open>GSI2-PK = type#<hash_type>\<close>, and nothing else. The hash type is \<open>pdq\<close>.
\<close>

theorem to_dynamodb_item_layout:
  fixes h :: "'dt PipelinePDQHashRecord" and m :: "'dt PDQMatchRecord"
  shows
  "map_of (PipelinePDQHashRecord_to_dynamodb_item isoformat h) =
     [''PK'' \<mapsto> S (''c#'' @ content_key h),
      ''SK'' \<mapsto> S (''type#'' @ SIGNAL_TYPE),
      ''ContentHash'' \<mapsto> S (content_hash h),
      ''Quality'' \<mapsto> N (quality h),
      ''Timestamp'' \<mapsto> S (isoformat (timestamp h)),
      ''HashType'' \<mapsto> S SIGNAL_TYPE]
   \<and> distinct (map fst (PipelinePDQHashRecord_to_dynamodb_item isoformat h))
   \<and> map_of (PDQMatchRecord_to_dynamodb_item isoformat m) =
     [''PK'' \<mapsto> S (''c#'' @ content_key m),
      ''SK'' \<mapsto> S (''te#'' @ str_int (te_id m)),
      ''ContentHash'' \<mapsto> S (content_hash m),
      ''Timestamp'' \<mapsto> S (isoformat (timestamp m)),
      ''TEHash'' \<mapsto> S (te_hash m),
      ''HashType'' \<mapsto> S SIGNAL_TYPE,
      ''GSI1-PK'' \<mapsto> S (''te#'' @ str_int (te_id m)),
      ''GSI1-SK'' \<mapsto> S (''c#'' @ content_key m),
      ''GSI2-PK'' \<mapsto> S (''type#'' @ SIGNAL_TYPE)]
   \<and> distinct (map fst (PDQMatchRecord_to_dynamodb_item isoformat m))
   \<and> SIGNAL_TYPE = ''pdq''
   \<and> str_int 42 = ''42''"
  by (auto simp: PipelinePDQHashRecord_to_dynamodb_item_def PDQMatchRecord_to_dynamodb_item_def
      get_dynamodb_content_key_def get_dynamodb_type_key_def get_dynamodb_te_key_def
      SIGNAL_TYPE_def str_int_def str_nat_42 fun_eq_iff simp del: str_nat.simps)

section \<open>Rule evaluation and supersession\<close>

text \<open>
  C1. A rule applies exactly when every must-have label is among the labels derived from
  the match message and no must-not-have label is. The function in the sources answers
  True for every rule and message. Here it is evaluated on a rule that asks for a label
  and forbids the same label, which no set of derived labels satisfies, and on the rule
  of \<open>get_action_rules\<close> against a message without any label.
\<close>

theorem action_rule_applies_is_constant:
  "action_rule_applies_to_match_message
     \<lparr>ActionRule.action_label = ActionLabel ''EnqueueForReview'',
      must_have_labels = [\<lparr>key = ''Collaboration'', value = ''12345''\<rparr>],
      must_not_have_labels = [\<lparr>key = ''Collaboration'', value = ''12345''\<rparr>]\<rparr>
     bare_match_message = True
   \<and> (\<forall>derived_labels.
        applies_spec derived_labels
          \<lparr>ActionRule.action_label = ActionLabel ''EnqueueForReview'',
           must_have_labels = [\<lparr>key = ''Collaboration'', value = ''12345''\<rparr>],
           must_not_have_labels = [\<lparr>key = ''Collaboration'', value = ''12345''\<rparr>]\<rparr> = False)
   \<and> list_all (\<lambda>rule. action_rule_applies_to_match_message rule bare_match_message
                        \<and> \<not> applies_spec [] rule) get_action_rules"
  by (simp add: action_rule_applies_to_match_message_def applies_spec_def get_action_rules_def)

lemma get_action_labels_value:
  "get_action_labels m = [ActionLabel ''EnqueueForReview'']"
  by (simp add: get_action_labels_def get_action_labels_of_def get_action_rules_def
      remove_superseded_actions_def action_rule_applies_to_match_message_def)

text \<open>
  C4. Supersession removes the labels that another label of the list supersedes, and
  only those. The function in the sources returns its argument. Here it is evaluated on
  the two labels of the catalog's only action: \<open>ENQUEUE_FOR_REVIEW\<close> is superseded by
  \<open>A_MORE_IMPORTANT_ACTION\<close>, both are in the list, and both stay; the same holds for
  the labels that two applying rules produce.
\<close>

theorem remove_superseded_actions_is_identity:
  "remove_superseded_actions
     [ActionLabel ''ENQUEUE_FOR_REVIEW'', ActionLabel ''A_MORE_IMPORTANT_ACTION'']
   = [ActionLabel ''ENQUEUE_FOR_REVIEW'', ActionLabel ''A_MORE_IMPORTANT_ACTION'']
   \<and> remove_superseded_spec get_actions
     [ActionLabel ''ENQUEUE_FOR_REVIEW'', ActionLabel ''A_MORE_IMPORTANT_ACTION'']
   = [ActionLabel ''A_MORE_IMPORTANT_ACTION'']
   \<and> get_action_labels_of
     [\<lparr>ActionRule.action_label = ActionLabel ''ENQUEUE_FOR_REVIEW'',
       must_have_labels = [], must_not_have_labels = []\<rparr>,
      \<lparr>ActionRule.action_label = ActionLabel ''A_MORE_IMPORTANT_ACTION'',
       must_have_labels = [], must_not_have_labels = []\<rparr>]
     bare_match_message
   = [ActionLabel ''ENQUEUE_FOR_REVIEW'', ActionLabel ''A_MORE_IMPORTANT_ACTION'']"
  by (simp add: remove_superseded_actions_def remove_superseded_spec_def superseded_spec_def
      get_actions_def get_action_labels_of_def action_rule_applies_to_match_message_def
      ActionLabel_def)

section \<open>The fixed-key label kinds\<close>

lemma Label_class_fields:
  "Label_class =
     Inr [(''key'', \<lparr>default_value = MISSING, init = True\<rparr>),
          (''value'', \<lparr>default_value = MISSING, init = True\<rparr>)]"
  by (simp add: Label_class_def dataclass_def get_field_def)

lemma Label_new: "new_label Label_class [k, v] = Inr \<lparr>key = k, value = v\<rparr>"
  by (simp add: Label_class_fields new_label_def)

lemma fixed_key_class_raises: "subclass_of_Label (fixed_key_body k) = Inl TypeError"
  by (simp add: subclass_of_Label_def Label_class_fields dataclass_def fixed_key_body_def
      is_Field_def)

text \<open>
  With the annotation the class statement succeeds, the constructor takes the value
  alone, and the key of every instance is the constant.
\<close>

lemma annotated_key_class_new:
  "new_label (subclass_of_Label (annotated_key_body k)) [v] = Inr \<lparr>key = k, value = v\<rparr>"
  by (simp add: subclass_of_Label_def Label_class_fields dataclass_def annotated_key_body_def
      is_Field_def get_field_def new_label_def)

text \<open>
  C5. Constructing an instance of a fixed-key kind gives a label with the kind's constant
  key. In the sources each of the six class statements binds \<open>key\<close> to a
  \<open>field(...)\<close> without a type annotation, which the dataclass decorator refuses with
  TypeError, so no instance of any of the kinds can be constructed.
\<close>

theorem fixed_key_kinds_cannot_be_defined:
  "ClassificationLabel_class = Inl TypeError
   \<and> BankSourceClassificationLabel_class = Inl TypeError
   \<and> BankIDClassificationLabel_class = Inl TypeError
   \<and> BankedContentIDClassificationLabel_class = Inl TypeError
   \<and> ActionLabel_class = Inl TypeError
   \<and> ThreatExchangeReactionLabel_class = Inl TypeError
   \<and> (\<forall>v. new_label ClassificationLabel_class [v] = Inl TypeError
          \<and> new_label BankSourceClassificationLabel_class [v] = Inl TypeError
          \<and> new_label BankIDClassificationLabel_class [v] = Inl TypeError
          \<and> new_label BankedContentIDClassificationLabel_class [v] = Inl TypeError
          \<and> new_label ActionLabel_class [v] = Inl TypeError
          \<and> new_label ThreatExchangeReactionLabel_class [v] = Inl TypeError)"
  by (simp add: ClassificationLabel_class_def BankSourceClassificationLabel_class_def
      BankIDClassificationLabel_class_def BankedContentIDClassificationLabel_class_def
      ActionLabel_class_def ThreatExchangeReactionLabel_class_def fixed_key_class_raises
      new_label_def)

section \<open>The wire encoding of action and reaction messages\<close>

lemma map_result_map:
  "\<forall>s \<in> set xs. from_dict (to_dict s) = Inr s \<Longrightarrow> map_result from_dict (map to_dict xs) = Inr xs"
  by (induction xs) simp_all

lemma BankedSignal_from_to_dict: "BankedSignal_from_dict (BankedSignal_to_dict s) = Inr s"
  by (simp add: BankedSignal_from_dict_def BankedSignal_to_dict_def)

text \<open>A call of a class whose statement raised does not return.\<close>

lemma new_label_failed: "new_label (Inl e) args = Inl e"
  by (simp add: new_label_def)

lemma label_classes_failed:
  "ActionLabel_class = Inl TypeError"
  "ThreatExchangeReactionLabel_class = Inl TypeError"
  by (simp_all add: ActionLabel_class_def ThreatExchangeReactionLabel_class_def
      fixed_key_class_raises)

lemma ActionMessage_from_aws_message_raises:
  "\<exists>e. ActionMessage_from_aws_message from_dict message = Inl e"
  unfolding ActionMessage_from_aws_message_def ActionMessage_from_aws_message_with_def
  by (simp add: label_classes_failed new_label_failed split: sum.splits)

lemma ReactionMessage_from_aws_message_raises:
  "\<exists>e. ReactionMessage_from_aws_message from_dict message = Inl e"
  unfolding ReactionMessage_from_aws_message_def ReactionMessage_from_aws_message_with_def
  by (simp add: label_classes_failed new_label_failed split: sum.splits)

text \<open>
  The encoding itself loses nothing. With a label class whose statement succeeds (the
  body with the annotation), decoding the text that \<open>to_aws_message\<close> writes gives the
  message back: the content key, the content hash, the banked signals in their order and
  the label.
\<close>

lemma ActionMessage_roundtrip_with_annotated_class:
  fixes m :: "'s ActionMessage"
  assumes "\<forall>s \<in> set (matching_banked_signals m). from_dict (to_dict s) = Inr s"
    and "key (ActionMessage.action_label m) = ''Action''"
  shows "ActionMessage_from_aws_message_with (subclass_of_Label (annotated_key_body ''Action''))
           from_dict (ActionMessage_to_aws_message to_dict m) = Inr m"
proof -
  have l: "\<lparr>key = ''Action'', value = value (ActionMessage.action_label m)\<rparr>
           = ActionMessage.action_label m"
    using assms(2) by (simp add: Label_eq_iff)
  have s: "map_result from_dict (map to_dict (matching_banked_signals m))
           = Inr (matching_banked_signals m)"
    using assms(1) by (rule map_result_map)
  show ?thesis
    unfolding ActionMessage_from_aws_message_with_def ActionMessage_to_aws_message_def
    by (simp add: loads_dumps s l annotated_key_class_new del: dumps.simps)
qed

lemma ReactionMessage_roundtrip_with_annotated_class:
  fixes r :: "'s ReactionMessage"
  assumes "\<forall>s \<in> set (matching_banked_signals r). from_dict (to_dict s) = Inr s"
    and "key (reaction_label r) = ''ThreatExchangeReaction''"
  shows "ReactionMessage_from_aws_message_with
           (subclass_of_Label (annotated_key_body ''ThreatExchangeReaction''))
           from_dict (ReactionMessage_to_aws_message to_dict r) = Inr r"
proof -
  have l: "\<lparr>key = ''ThreatExchangeReaction'', value = value (reaction_label r)\<rparr>
           = reaction_label r"
    using assms(2) by (simp add: Label_eq_iff)
  have s: "map_result from_dict (map to_dict (matching_banked_signals r))
           = Inr (matching_banked_signals r)"
    using assms(1) by (rule map_result_map)
  show ?thesis
    unfolding ReactionMessage_from_aws_message_with_def ReactionMessage_to_aws_message_def
    by (simp add: loads_dumps s l annotated_key_class_new del: dumps.simps)
qed

text \<open>The text of an action message and of a reaction message without banked signals.\<close>

lemma action_message_text:
  "dumps (JObj [(''ContentKey'', JStr ''key''), (''ContentHash'', JStr ''hash''),
                (''MatchingBankedSignals'', JArr []),
                (''ActionLabelValue'', JStr ''EnqueueForReview'')])
   = ''{\"ContentKey\": \"key\", \"ContentHash\": \"hash\", \"MatchingBankedSignals\": [], \"ActionLabelValue\": \"EnqueueForReview\"}''"
  by (simp add: encode_basestring_ascii_def escape_char_def)

lemma reaction_message_text:
  "dumps (JObj [(''ContentKey'', JStr ''key''), (''ContentHash'', JStr ''hash''),
                (''MatchingBankedSignals'', JArr []),
                (''ReactionLabelValue'', JStr ''SAW_THIS_TOO'')])
   = ''{\"ContentKey\": \"key\", \"ContentHash\": \"hash\", \"MatchingBankedSignals\": [], \"ReactionLabelValue\": \"SAW_THIS_TOO\"}''"
  by (simp add: encode_basestring_ascii_def escape_char_def)

text \<open>
  C2. Decoding the text that \<open>to_aws_message\<close> writes gives the message back, for
  action messages and for reaction messages. In the sources \<open>from_aws_message\<close> calls
  \<open>ActionLabel(...)\<close> and \<open>ThreatExchangeReactionLabel(...)\<close>, two of the classes whose
  statements raise TypeError, so it returns no message for any text. Here both methods
  are evaluated on the text of a message without banked signals, which is what
  \<open>to_aws_message\<close> writes for it.
\<close>

theorem from_aws_message_cannot_return:
  "ActionMessage_from_aws_message BankedSignal_from_dict
     ''{\"ContentKey\": \"key\", \"ContentHash\": \"hash\", \"MatchingBankedSignals\": [], \"ActionLabelValue\": \"EnqueueForReview\"}''
   = Inl TypeError
   \<and> ReactionMessage_from_aws_message BankedSignal_from_dict
     ''{\"ContentKey\": \"key\", \"ContentHash\": \"hash\", \"MatchingBankedSignals\": [], \"ReactionLabelValue\": \"SAW_THIS_TOO\"}''
   = Inl TypeError
   \<and> ActionMessage_to_aws_message BankedSignal_to_dict
     (ActionMessage_from_match_message_and_label bare_match_message
        \<lparr>key = ''Action'', value = ''EnqueueForReview''\<rparr>)
   = ''{\"ContentKey\": \"key\", \"ContentHash\": \"hash\", \"MatchingBankedSignals\": [], \"ActionLabelValue\": \"EnqueueForReview\"}''
   \<and> ReactionMessage_to_aws_message BankedSignal_to_dict
     (ReactionMessage_from_match_message_and_label bare_match_message
        \<lparr>key = ''ThreatExchangeReaction'', value = ''SAW_THIS_TOO''\<rparr>)
   = ''{\"ContentKey\": \"key\", \"ContentHash\": \"hash\", \"MatchingBankedSignals\": [], \"ReactionLabelValue\": \"SAW_THIS_TOO\"}''
   \<and> (\<forall>(from_dict :: json \<Rightarrow> py_error + 's) message.
        \<exists>e. ActionMessage_from_aws_message from_dict message = Inl e)
   \<and> (\<forall>(from_dict :: json \<Rightarrow> py_error + 's) message.
        \<exists>e. ReactionMessage_from_aws_message from_dict message = Inl e)"
proof -
  have a: "ActionMessage_from_aws_message BankedSignal_from_dict
     (dumps (JObj [(''ContentKey'', JStr ''key''), (''ContentHash'', JStr ''hash''),
                   (''MatchingBankedSignals'', JArr []),
                   (''ActionLabelValue'', JStr ''EnqueueForReview'')])) = Inl TypeError"
    unfolding ActionMessage_from_aws_message_def ActionMessage_from_aws_message_with_def
    by (simp add: loads_dumps label_classes_failed new_label_failed del: dumps.simps)
  have r: "ReactionMessage_from_aws_message BankedSignal_from_dict
     (dumps (JObj [(''ContentKey'', JStr ''key''), (''ContentHash'', JStr ''hash''),
                   (''MatchingBankedSignals'', JArr []),
                   (''ReactionLabelValue'', JStr ''SAW_THIS_TOO'')])) = Inl TypeError"
    unfolding ReactionMessage_from_aws_message_def ReactionMessage_from_aws_message_with_def
    by (simp add: loads_dumps label_classes_failed new_label_failed del: dumps.simps)
  have ta: "ActionMessage_to_aws_message BankedSignal_to_dict
     (ActionMessage_from_match_message_and_label bare_match_message
        \<lparr>key = ''Action'', value = ''EnqueueForReview''\<rparr>)
     = dumps (JObj [(''ContentKey'', JStr ''key''), (''ContentHash'', JStr ''hash''),
                    (''MatchingBankedSignals'', JArr []),
                    (''ActionLabelValue'', JStr ''EnqueueForReview'')])"
    by (simp add: ActionMessage_to_aws_message_def ActionMessage_from_match_message_and_label_def
        bare_match_message_def del: dumps.simps)
  have tr: "ReactionMessage_to_aws_message BankedSignal_to_dict
     (ReactionMessage_from_match_message_and_label bare_match_message
        \<lparr>key = ''ThreatExchangeReaction'', value = ''SAW_THIS_TOO''\<rparr>)
     = dumps (JObj [(''ContentKey'', JStr ''key''), (''ContentHash'', JStr ''hash''),
                    (''MatchingBankedSignals'', JArr []),
                    (''ReactionLabelValue'', JStr ''SAW_THIS_TOO'')])"
    by (simp add: ReactionMessage_to_aws_message_def
        ReactionMessage_from_match_message_and_label_def bare_match_message_def
        del: dumps.simps)
  show ?thesis
    using a r ta tr ActionMessage_from_aws_message_raises ReactionMessage_from_aws_message_raises
    unfolding action_message_text reaction_message_text
    by blast
qed

section \<open>The handler\<close>

lemma react_to_threat_exchange_raises:
  "react_to_threat_exchange m l =
     ([React_to_threat_exchange m l,
       Log ''info'' ''The contents of a ThreatExchangeReactionMessage will contain the following:''],
      Inl AttributeError)"
  by (simp add: react_to_threat_exchange_def logger_call_def logger_methods_def)

lemma react_enabled:
  "reacting_is_enabled m \<Longrightarrow>
   react reacting_is_enabled m action_labels =
     ([Get_threat_exchange_reaction_labels m action_labels,
       React_to_threat_exchange m (ThreatExchangeReactionLabel ''SAW_THIS_TOO''),
       Log ''info'' ''The contents of a ThreatExchangeReactionMessage will contain the following:''],
      Inl AttributeError)"
  by (simp add: react_def get_threat_exchange_reaction_labels_def react_to_threat_exchange_raises)

lemma react_disabled:
  "\<not> reacting_is_enabled m \<Longrightarrow> react reacting_is_enabled m action_labels = ([], Inr ())"
  by (simp add: react_def)

lemma react_sends_nothing: "filter is_send (fst (react reacting_is_enabled m action_labels)) = []"
  by (cases "reacting_is_enabled m") (simp_all add: react_enabled react_disabled)

text \<open>A record whose notification carries a message that \<open>from_sns_message\<close> reads.\<close>

lemma handle_record_decoded:
  assumes "from_sns_message env message = Inr m"
  shows "handle_record env reacting_is_enabled (dumps (JObj [(''Message'', JStr message)])) =
     (Log ''info'' ''Evaluating match_message: %s''
        # map (\<lambda>action_label. Send_message (ACTIONS_QUEUE_URL env) (dumps (to_sns_message env m)))
            (get_action_labels m)
        @ fst (react reacting_is_enabled m (get_action_labels m)),
      snd (react reacting_is_enabled m (get_action_labels m)))"
  unfolding handle_record_def
  by (simp add: loads_dumps assms logger_call_def logger_methods_def Let_def case_prod_beta
      del: dumps.simps)

lemma MatchMessage_from_to_sns:
  "MatchMessage_from_sns_message (dumps (MatchMessage_to_sns_message m)) = Inr m"
proof -
  have "map_result BankedSignal_from_dict (map BankedSignal_to_dict (matching_banked_signals m))
        = Inr (matching_banked_signals m)"
    by (rule map_result_map) (simp add: BankedSignal_from_to_dict)
  then show ?thesis
    unfolding MatchMessage_from_sns_message_def MatchMessage_to_sns_message_def
    by (simp add: loads_dumps del: dumps.simps)
qed

lemma handle_record_example:
  "handle_record example_env reacting_is_enabled (record_body m) =
     (Log ''info'' ''Evaluating match_message: %s''
        # Send_message ''https://sqs.example/actions'' (dumps (MatchMessage_to_sns_message m))
        # fst (react reacting_is_enabled m [ActionLabel ''EnqueueForReview'']),
      snd (react reacting_is_enabled m [ActionLabel ''EnqueueForReview'']))"
proof -
  have "from_sns_message example_env (dumps (MatchMessage_to_sns_message m)) = Inr m"
    by (simp add: example_env_def MatchMessage_from_to_sns del: dumps.simps)
  from handle_record_decoded [OF this] show ?thesis
    by (simp add: record_body_def get_action_labels_value example_env_def del: dumps.simps)
qed

text \<open>
  Whatever the environment, every message the handler sends for a record is the text of
  \<open>to_sns_message\<close>, once for each action label and the same for all of them.
\<close>

lemma handle_record_sends:
  assumes "from_sns_message env message = Inr m"
  shows "filter is_send
           (fst (handle_record env reacting_is_enabled (dumps (JObj [(''Message'', JStr message)]))))
         = replicate (length (get_action_labels m))
             (Send_message (ACTIONS_QUEUE_URL env) (dumps (to_sns_message env m)))"
proof -
  have "filter is_send (map (\<lambda>l. Send_message q b) ls) = replicate (length ls) (Send_message q b)"
    for q b and ls :: "Label list"
    by (induction ls) simp_all
  then show ?thesis
    by (simp add: handle_record_decoded [OF assms] react_sends_nothing del: dumps.simps)
qed

text \<open>
  C3. For every action label that resolution returns, the handler publishes the
  serialization of an \<open>ActionMessage\<close> built from the match message and that label, so
  that the payload carries the label's value under \<open>ActionLabelValue\<close>. The handler in
  the sources publishes \<open>json.dumps(match_message.to_sns_message())\<close> and never uses
  the label. Here it is evaluated on one record carrying the match message of the main
  block: resolution returns \<open>EnqueueForReview\<close>, one message is sent, its text is not
  the text of the action message, and it has no \<open>ActionLabelValue\<close>.
\<close>

theorem handler_publishes_match_message_only:
  "get_action_labels match_message = [ActionLabel ''EnqueueForReview'']
   \<and> filter is_send (fst (lambda_handler example_env [record_body match_message]))
     = [Send_message ''https://sqs.example/actions''
          (dumps (MatchMessage_to_sns_message match_message))]
   \<and> dumps (MatchMessage_to_sns_message match_message)
     \<noteq> ActionMessage_to_aws_message BankedSignal_to_dict
         (ActionMessage_from_match_message_and_label match_message
            (ActionLabel ''EnqueueForReview''))
   \<and> loads (dumps (MatchMessage_to_sns_message match_message))
     = Inr (MatchMessage_to_sns_message match_message)
   \<and> getitem (MatchMessage_to_sns_message match_message) ''ActionLabelValue'' = Inl KeyError"
proof -
  have a: "filter is_send (fst (lambda_handler example_env [record_body match_message]))
     = [Send_message ''https://sqs.example/actions''
          (dumps (MatchMessage_to_sns_message match_message))]"
    by (simp add: lambda_handler_def lambda_handler_with_def handle_record_example
        react_sends_nothing split: prod.splits sum.splits del: dumps.simps)
  have b: "dumps (MatchMessage_to_sns_message match_message)
     \<noteq> ActionMessage_to_aws_message BankedSignal_to_dict
         (ActionMessage_from_match_message_and_label match_message
            (ActionLabel ''EnqueueForReview''))"
  proof
    assume "dumps (MatchMessage_to_sns_message match_message)
      = ActionMessage_to_aws_message BankedSignal_to_dict
          (ActionMessage_from_match_message_and_label match_message
             (ActionLabel ''EnqueueForReview''))"
    then have "MatchMessage_to_sns_message match_message
      = JObj [(''ContentKey'', JStr (MatchMessage.content_key
                 (ActionMessage_from_match_message_and_label match_message
                    (ActionLabel ''EnqueueForReview'')))),
              (''ContentHash'', JStr (MatchMessage.content_hash
                 (ActionMessage_from_match_message_and_label match_message
                    (ActionLabel ''EnqueueForReview'')))),
              (''MatchingBankedSignals'', JArr (map BankedSignal_to_dict (matching_banked_signals
                 (ActionMessage_from_match_message_and_label match_message
                    (ActionLabel ''EnqueueForReview''))))),
              (''ActionLabelValue'', JStr (value (ActionMessage.action_label
                 (ActionMessage_from_match_message_and_label match_message
                    (ActionLabel ''EnqueueForReview'')))))]"
      unfolding ActionMessage_to_aws_message_def by (rule dumps_inject)
    then show False
      by (simp add: MatchMessage_to_sns_message_def)
  qed
  have c: "getitem (MatchMessage_to_sns_message match_message) ''ActionLabelValue'' = Inl KeyError"
    by (simp add: MatchMessage_to_sns_message_def)
  show ?thesis
    using a b c by (simp add: get_action_labels_value loads_dumps del: dumps.simps)
qed

text \<open>
  C8. When the reacting-enabled check is false for a match message, no reaction is
  resolved and nothing is done about reactions, whatever the action labels are: the
  check comes first, and \<open>get_threat_exchange_reaction_labels\<close> and
  \<open>react_to_threat_exchange\<close> are not called. The record is then handled without an
  exception, and its only calls are the log line and the messages for the action labels.
  The check is an argument here: the one in the sources is true for every message.
\<close>

theorem reacting_disabled_skips_reactions:
  assumes "\<not> reacting_is_enabled m"
    and "from_sns_message env message = Inr m"
  shows "react reacting_is_enabled m action_labels = ([], Inr ())
    \<and> handle_record env reacting_is_enabled (dumps (JObj [(''Message'', JStr message)])) =
        (Log ''info'' ''Evaluating match_message: %s''
           # map (\<lambda>action_label.
                    Send_message (ACTIONS_QUEUE_URL env) (dumps (to_sns_message env m)))
               (get_action_labels m),
         Inr ())"
  using assms
  by (simp add: handle_record_decoded react_disabled del: dumps.simps)

theorem reacting_disabled_skips_reactions_witness:
  "react reacting_disabled match_message [ActionLabel ''EnqueueForReview''] = ([], Inr ())
   \<and> handle_record example_env reacting_disabled (record_body match_message) =
       ([Log ''info'' ''Evaluating match_message: %s'',
         Send_message ''https://sqs.example/actions''
           (dumps (MatchMessage_to_sns_message match_message))],
        Inr ())"
proof -
  have d: "\<not> reacting_disabled match_message"
    by (simp add: reacting_disabled_def)
  have f: "from_sns_message example_env (dumps (MatchMessage_to_sns_message match_message))
           = Inr match_message"
    by (simp add: example_env_def MatchMessage_from_to_sns del: dumps.simps)
  show ?thesis
    using reacting_disabled_skips_reactions
      [of reacting_disabled match_message example_env
          "dumps (MatchMessage_to_sns_message match_message)"
          "[ActionLabel ''EnqueueForReview'']"] d f
    by (simp add: record_body_def get_action_labels_value example_env_def del: dumps.simps)
qed

text \<open>
  C10. \<open>get_threat_exchange_reaction_labels\<close> returns the one label \<open>SAW_THIS_TOO\<close>
  for every message and every list of action labels, the empty one too, and
  \<open>threat_exchange_reacting_is_enabled\<close> is true for every message; so the handler
  resolves a reaction for every inbound match event. The two functions are as said. The
  handler, though, stops at the first reaction: \<open>react_to_threat_exchange\<close> calls
  \<open>logger.ingo\<close>, which raises AttributeError. Here the handler is evaluated on two
  records: the second one is never read, and no reaction is resolved for it.
\<close>

theorem handler_stops_at_first_reaction:
  "(\<forall>(m :: 's MatchMessage) action_labels.
      get_threat_exchange_reaction_labels m action_labels
        = [ThreatExchangeReactionLabel ''SAW_THIS_TOO''])
   \<and> (\<forall>m :: 's MatchMessage. threat_exchange_reacting_is_enabled m)
   \<and> lambda_handler example_env [record_body match_message, record_body bare_match_message]
     = ([Log ''info'' ''Evaluating match_message: %s'',
         Send_message ''https://sqs.example/actions''
           (dumps (MatchMessage_to_sns_message match_message)),
         Get_threat_exchange_reaction_labels match_message [ActionLabel ''EnqueueForReview''],
         React_to_threat_exchange match_message (ThreatExchangeReactionLabel ''SAW_THIS_TOO''),
         Log ''info''
           ''The contents of a ThreatExchangeReactionMessage will contain the following:''],
        Inl AttributeError)"
  by (simp add: get_threat_exchange_reaction_labels_def threat_exchange_reacting_is_enabled_def
      lambda_handler_def lambda_handler_with_def handle_record_example react_enabled
      del: dumps.simps)

section \<open>The webhook performers\<close>

lemma perform_action_get_delete_raise:
  "perform_action http to_aws_message (WebhookGetActionPerformer n u) m = Inl TypeError"
  "perform_action http to_aws_message (WebhookDeleteActionPerformer n u) m = Inl TypeError"
  by (simp_all add: perform_action_def call_def)

lemma perform_action_post_put:
  "perform_action http to_aws_message (WebhookPostActionPerformer n u) m =
     (case http (Post u (to_aws_message m)) of Inl e \<Rightarrow> Inl e | Inr response \<Rightarrow> Inr ())"
  "perform_action http to_aws_message (WebhookPutActionPerformer n u) m =
     (case http (Put u (to_aws_message m)) of Inl e \<Rightarrow> Inl e | Inr response \<Rightarrow> Inr ())"
  by (simp_all add: perform_action_def call_def)

text \<open>
  C9, as stated: \<open>perform_action\<close> returns a value that tells its caller whether the
  call succeeded. It does not: for a server that answers 500 and for one that answers
  200 the POST performer returns the same \<open>None\<close>.
\<close>

theorem perform_action_discards_response:
  "perform_action (always_responds 500) (ActionMessage_to_aws_message BankedSignal_to_dict)
     (WebhookPostActionPerformer ''PostWebhook'' ''https://webhook.example/hook'')
     (ActionMessage_from_match_message_and_label match_message (ActionLabel ''EnqueueForReview''))
   = Inr ()
   \<and> perform_action (always_responds 200) (ActionMessage_to_aws_message BankedSignal_to_dict)
     (WebhookPostActionPerformer ''PostWebhook'' ''https://webhook.example/hook'')
     (ActionMessage_from_match_message_and_label match_message (ActionLabel ''EnqueueForReview''))
   = Inr ()"
  by (simp add: perform_action_post_put always_responds_def)

text \<open>
  C9, amended: for the POST and the PUT performer, whenever the HTTP call returns a
  response, whatever its status code, \<open>perform_action\<close> raises nothing and returns
  \<open>None\<close>; the response is dropped.
\<close>

theorem perform_action_returns_None:
  assumes "self = WebhookPostActionPerformer n u \<or> self = WebhookPutActionPerformer n u"
    and "http (call_request self (to_aws_message m)) = Inr response"
  shows "perform_action http to_aws_message self m = Inr ()"
  using assms by (auto simp: perform_action_post_put)

theorem perform_action_returns_None_witness:
  "always_responds 404
     (call_request (WebhookPutActionPerformer ''PutWebhook'' ''https://webhook.example/hook'')
        (ActionMessage_to_aws_message BankedSignal_to_dict
           (ActionMessage_from_match_message_and_label match_message
              (ActionLabel ''EnqueueForReview''))))
   = Inr \<lparr>status_code = 404\<rparr>
   \<and> perform_action (always_responds 404) (ActionMessage_to_aws_message BankedSignal_to_dict)
     (WebhookPutActionPerformer ''PutWebhook'' ''https://webhook.example/hook'')
     (ActionMessage_from_match_message_and_label match_message (ActionLabel ''EnqueueForReview''))
   = Inr ()"
  using perform_action_returns_None
    [of "WebhookPutActionPerformer ''PutWebhook'' ''https://webhook.example/hook''"
        "''PutWebhook''" "''https://webhook.example/hook''" "always_responds 404"
        "ActionMessage_to_aws_message BankedSignal_to_dict"
        "ActionMessage_from_match_message_and_label match_message (ActionLabel ''EnqueueForReview'')"
        "\<lparr>status_code = 404\<rparr>"]
  by (simp add: always_responds_def)


end
